theory Spec2Isabelle
  imports Complex_Main "HOL-Library.AList"
begin

section \<open>Python strings\<close>

text \<open>
  A Python \<open>str\<close> is modelled as a \<open>string\<close>; one HOL \<open>char\<close> stands for one Python
  character, so \<open>length\<close> counts what \<open>len\<close> counts and \<open>take n\<close> is the slice \<open>[:n]\<close>.
  Characters above code point 255 are outside the model.
\<close>

abbreviation NL :: char where
  "NL \<equiv> CHR 0x0A"

text \<open>\<open>str.isspace\<close> on one character, for the code points below 256.\<close>

definition is_space :: "char \<Rightarrow> bool" where
  "is_space c = (c \<in> set [CHR 0x09, CHR 0x0A, CHR 0x0B, CHR 0x0C, CHR 0x0D,
                            CHR 0x1C, CHR 0x1D, CHR 0x1E, CHR 0x1F, CHR 0x20,
                            CHR 0x85, CHR 0xA0])"

text \<open>\<open>s.strip()\<close>\<close>

definition strip :: "string \<Rightarrow> string" where
  "strip s = rev (dropWhile is_space (rev (dropWhile is_space s)))"

text \<open>\<open>s.startswith(p)\<close>\<close>

definition startswith :: "string \<Rightarrow> string \<Rightarrow> bool" where
  "startswith s p = (take (length p) s = p)"

text \<open>\<open>sep.join(xs)\<close>\<close>

fun join :: "string \<Rightarrow> string list \<Rightarrow> string" where
  "join sep [] = []"
| "join sep [x] = x"
| "join sep (x # y # ys) = x @ sep @ join sep (y # ys)"

text \<open>
  \<open>s.replace(old, new)\<close>: the occurrences of \<open>old\<close> are replaced from left to right
  without overlap; with an empty \<open>old\<close> Python puts \<open>new\<close> before every character and at
  the end.
\<close>

function replace :: "string \<Rightarrow> string \<Rightarrow> string \<Rightarrow> string" where
  "replace old new s =
     (if old = [] then new @ concat (map (\<lambda>c. c # new) s)
      else if s = [] then []
      else if startswith s old then new @ replace old new (drop (length old) s)
      else hd s # replace old new (tl s))"
  by pat_completeness auto
termination
  by (relation "measure (\<lambda>(old, new, s). length s)") auto

declare replace.simps [simp del]

text \<open>\<open>str(n)\<close> for a non-negative integer.\<close>

definition digit_char :: "nat \<Rightarrow> char" where
  "digit_char d = ''0123456789'' ! d"

function str_nat :: "nat \<Rightarrow> string" where
  "str_nat n = (if n < 10 then [digit_char n] else str_nat (n div 10) @ [digit_char (n mod 10)])"
  by pat_completeness auto
termination
  by (relation "measure id") auto

declare str_nat.simps [simp del]

text \<open>The maximal runs of non-whitespace characters of a string (the regex \<open>\S+\<close>).\<close>

fun split_acc :: "string \<Rightarrow> string \<Rightarrow> string list" where
  "split_acc cur [] = (if cur = [] then [] else [cur])"
| "split_acc cur (c # cs) =
     (if is_space c then (if cur = [] then [] else [cur]) @ split_acc [] cs
      else split_acc (cur @ [c]) cs)"

definition split_ws :: "string \<Rightarrow> string list" where
  "split_ws s = split_acc [] s"

section \<open>Exceptions\<close>

text \<open>
  \<open>Exn msg\<close> is an instance of a subclass of Python's \<open>Exception\<close> whose \<open>str()\<close> is \<open>msg\<close>.
  \<open>RetryError e\<close> is the exception the retry decorator raises once it gives up; it wraps the
  exception of the last attempt.
\<close>

datatype exn = Exn string | RetryError exn

section \<open>The document tree built by the HTML parser\<close>

text \<open>
  The tree \<open>BeautifulSoup(html, 'html.parser')\<close> returns: strings and tags with their
  attributes (raw attribute strings) and children. The root is the tag \<open>[document]\<close>.
  A string is a plain \<open>NavigableString\<close> or an instance of one of its subclasses (a
  comment, the text of a \<open>script\<close> element, and so on).
\<close>

datatype string_class =
    CData
  | Comment
  | Declaration
  | Doctype
  | ProcessingInstruction
  | Script
  | Stylesheet
  | TemplateString
  | RubyTextString
  | RubyParenthesisString

datatype node =
    NavigableString string
  | OtherString string_class string
  | Tag string "(string \<times> string) list" "node list"

fun is_tag :: "node \<Rightarrow> bool" where
  "is_tag (Tag n as cs) = True"
| "is_tag (NavigableString s) = False"
| "is_tag (OtherString k s) = False"

fun tag_name :: "node \<Rightarrow> string" where
  "tag_name (Tag n as cs) = n"
| "tag_name (NavigableString s) = []"
| "tag_name (OtherString k s) = []"

fun attrs :: "node \<Rightarrow> (string \<times> string) list" where
  "attrs (Tag n as cs) = as"
| "attrs (NavigableString s) = []"
| "attrs (OtherString k s) = []"

text \<open>\<open>tag.descendants\<close>: every node below the tag, in document order.\<close>

fun descendants :: "node \<Rightarrow> node list" where
  "descendants (NavigableString s) = []"
| "descendants (OtherString k s) = []"
| "descendants (Tag n as cs) = concat (map (\<lambda>c. c # descendants c) cs)"

text \<open>
  The keyword \<open>class_=c\<close>: the \<open>class\<close> attribute is split at whitespace, and the tag
  matches when one of its classes is \<open>c\<close> or the classes joined by one space are \<open>c\<close>.
\<close>

definition has_class :: "string \<Rightarrow> node \<Rightarrow> bool" where
  "has_class c t =
     (case map_of (attrs t) ''class'' of
        None \<Rightarrow> False
      | Some v \<Rightarrow> c \<in> set (split_ws v) \<or> c = join '' '' (split_ws v))"

text \<open>The keyword \<open>id=v\<close>.\<close>

definition has_id :: "string \<Rightarrow> node \<Rightarrow> bool" where
  "has_id v t = (map_of (attrs t) ''id'' = Some v)"

text \<open>
  \<open>tag.string\<close>: the string of a tag whose only child is a string (of any class), or
  whose only child is a tag that has a \<open>.string\<close>; \<open>None\<close> otherwise.
\<close>

fun tag_string :: "node \<Rightarrow> string option" where
  "tag_string (NavigableString s) = Some s"
| "tag_string (OtherString k s) = Some s"
| "tag_string (Tag n as []) = None"
| "tag_string (Tag n as [c]) = tag_string c"
| "tag_string (Tag n as (c # d # cs)) = None"

text \<open>
  \<open>tag.find_all(name, ...)\<close> and \<open>tag.find(name, ...)\<close> (here \<open>find_tag\<close>) with a filter on
  the tag: the matching tags below it in document order, and the first of them.
\<close>

definition find_all :: "node \<Rightarrow> string \<Rightarrow> (node \<Rightarrow> bool) \<Rightarrow> node list" where
  "find_all t nm p = filter (\<lambda>d. is_tag d \<and> tag_name d = nm \<and> p d) (descendants t)"

definition find_tag :: "node \<Rightarrow> string \<Rightarrow> (node \<Rightarrow> bool) \<Rightarrow> node option" where
  "find_tag t nm p = (case find_all t nm p of [] \<Rightarrow> None | d # ds \<Rightarrow> Some d)"

text \<open>
  The strings that count as the text of a tag. The parser's table \<open>string_containers\<close>
  gives the tags \<open>rt\<close>, \<open>rp\<close>, \<open>style\<close>, \<open>script\<close> and \<open>template\<close> a string class of their
  own; the text of such a tag is its strings of exactly that class, and the text of any
  other tag is its plain strings and its \<open>CData\<close> strings. Comments, and the strings of a
  \<open>script\<close> or \<open>style\<close> element inside another tag, are not text of that tag.
\<close>

definition string_container :: "string \<Rightarrow> string_class option" where
  "string_container nm =
     (if nm = ''rt'' then Some RubyTextString
      else if nm = ''rp'' then Some RubyParenthesisString
      else if nm = ''style'' then Some Stylesheet
      else if nm = ''script'' then Some Script
      else if nm = ''template'' then Some TemplateString
      else None)"

fun node_text :: "string \<Rightarrow> node \<Rightarrow> string option" where
  "node_text nm (NavigableString s) = (if string_container nm = None then Some s else None)"
| "node_text nm (OtherString k s) =
     (if string_container nm = Some k \<or> (string_container nm = None \<and> k = CData)
      then Some s else None)"
| "node_text nm (Tag n as cs) = None"

text \<open>
  \<open>tag.stripped_strings\<close>: the text strings below the tag, each stripped, the empty ones
  dropped; \<open>tag.get_text(separator, strip=True)\<close> joins them with the separator.
\<close>

definition stripped_strings :: "node \<Rightarrow> string list" where
  "stripped_strings t =
     filter (\<lambda>s. s \<noteq> [])
       (map strip (List.map_filter (node_text (tag_name t)) (descendants t)))"

definition get_text_strip :: "string \<Rightarrow> node \<Rightarrow> string" where
  "get_text_strip separator t = join separator (stripped_strings t)"

section \<open>The outside world\<close>

text \<open>
  An HTTP response as the code reads it: \<open>status_code\<close>, \<open>text\<close> (here \<open>text_body\<close>),
  \<open>content\<close>, and the \<open>reason\<close> and \<open>url\<close> that \<open>raise_for_status\<close> puts in its message.
\<close>

type_synonym bytes = "char list"

record response =
  status_code :: int
  reason :: string
  url :: string
  text_body :: string
  content :: bytes

text \<open>
  \<open>response.raise_for_status()\<close> of the requests library: an \<open>HTTPError\<close> for the status
  codes 400 to 599, nothing otherwise.
\<close>

definition str_int :: "int \<Rightarrow> string" where
  "str_int i = (if i < 0 then ''-'' @ str_nat (nat (- i)) else str_nat (nat i))"

definition raise_for_status :: "response \<Rightarrow> exn + unit" where
  "raise_for_status r =
     (if 400 \<le> status_code r \<and> status_code r < 500 then
        Inl (Exn (str_int (status_code r) @ '' Client Error: '' @ reason r @ '' for url: '' @ url r))
      else if 500 \<le> status_code r \<and> status_code r < 600 then
        Inl (Exn (str_int (status_code r) @ '' Server Error: '' @ reason r @ '' for url: '' @ url r))
      else Inr ())"

text \<open>A JSON value of a dataset item; a dictionary keeps its keys in order.\<close>

datatype json =
    JNull
  | JBool bool
  | JNum rat
  | JStr string
  | JArr "json list"
  | JObj "(string \<times> json) list"

text \<open>Python's truth value of such a value (\<open>None\<close> is \<open>JNull\<close>).\<close>

fun truthy :: "json \<Rightarrow> bool" where
  "truthy JNull = False"
| "truthy (JBool b) = b"
| "truthy (JNum x) = (x \<noteq> 0)"
| "truthy (JStr s) = (s \<noteq> [])"
| "truthy (JArr xs) = (xs \<noteq> [])"
| "truthy (JObj kvs) = (kvs \<noteq> [])"

text \<open>
  The collaborators the program calls, as parameters. Each call either raises (\<open>Inl\<close>) or
  returns (\<open>Inr\<close>).
  \<^item> \<open>actor_call run_input\<close>: the actor run started by \<open>apify_client.actor(...).call\<close>,
    giving the run's \<open>defaultDatasetId\<close>;
  \<^item> \<open>iterate_items id\<close>: what the iterator over the dataset yields, step by step (an item,
    or an exception raised by that step);
  \<^item> \<open>requests_get url headers timeout\<close>;
  \<^item> \<open>BeautifulSoup html\<close>: the parser, which may reject the markup;
  \<^item> \<open>PdfReader content\<close>: the pages of the document, each with what its \<open>extract_text()\<close>
    does;
  \<^item> \<open>generate_content n prompt\<close>: the \<open>n\<close>-th call of the text generation service, giving
    the response's \<open>text\<close>;
  \<^item> \<open>random_draw n\<close>: the \<open>n\<close>-th draw of \<open>random.random()\<close>;
  \<^item> \<open>str_dict\<close>, \<open>str_json\<close>: Python's \<open>str()\<close> of a dictionary of strings and of a JSON
    value, and \<open>str_retry_error\<close>, the \<open>str()\<close> of a \<open>RetryError\<close>;
  \<^item> \<open>report_outline\<close>: the fixed text of the prompt after its second \<open>{ticker}\<close>.
\<close>

record world =
  actor_call :: "(string \<times> string) list \<Rightarrow> exn + string"
  iterate_items :: "string \<Rightarrow> (exn + (string \<times> json) list) list"
  requests_get :: "string \<Rightarrow> (string \<times> string) list \<Rightarrow> nat \<Rightarrow> exn + response"
  BeautifulSoup :: "string \<Rightarrow> exn + node"
  PdfReader :: "bytes \<Rightarrow> exn + (exn + string) list"
  generate_content :: "nat \<Rightarrow> string \<Rightarrow> exn + string"
  random_draw :: "nat \<Rightarrow> real"
  str_dict :: "(string \<times> string) list \<Rightarrow> string"
  str_json :: "json \<Rightarrow> string"
  str_retry_error :: "exn \<Rightarrow> string"
  report_outline :: string

text \<open>\<open>str(e)\<close>\<close>

fun str_exn :: "world \<Rightarrow> exn \<Rightarrow> string" where
  "str_exn w (Exn msg) = msg"
| "str_exn w (RetryError e) = str_retry_error w e"

text \<open>
  What the program does to the outside, in the order it does it: the calls of its
  collaborators over the network (the actor call, the iteration over the dataset,
  \<open>requests.get\<close>, the generation call), the opening of a downloaded document with
  \<open>PdfReader\<close>, the sleep between two generation attempts, and the calls of the user
  interface (\<open>st.warning\<close>, \<open>st.status\<close>, \<open>st.error\<close>, \<open>st.stop\<close>, \<open>status.write\<close>,
  \<open>status.update\<close>, \<open>st.divider\<close>, \<open>st.markdown\<close>).
\<close>

datatype event =
    ActorCall "(string \<times> string) list"
  | DatasetIterate string
  | HttpGet string "(string \<times> string) list" nat
  | PdfRead bytes
  | GenerateContent string
  | Sleep real
  | StWarning string
  | StStatus string
  | StError string
  | StStop
  | StatusWrite string
  | StatusUpdate string
  | StDivider
  | StMarkdown string

section \<open>Scraping logic\<close>

subsection \<open>\<open>extract_transcript_links\<close>\<close>

definition transcript_anchor_of :: "node \<Rightarrow> node option" where
  "transcript_anchor_of li =
     find_tag li ''a'' (\<lambda>a. has_class ''concall-link'' a \<and> tag_string a = Some ''Transcript'')"

definition full_link_of :: "string \<Rightarrow> string" where
  "full_link_of link =
     (if startswith link ''http'' then link else ''https://www.screener.in'' @ link)"

fun links_loop :: "node list \<Rightarrow> string list \<Rightarrow> string list" where
  "links_loop [] transcript_links = transcript_links"
| "links_loop (li # list_items) transcript_links =
     (case transcript_anchor_of li of
        None \<Rightarrow> links_loop list_items transcript_links
      | Some transcript_anchor \<Rightarrow>
          (case map_of (attrs transcript_anchor) ''href'' of
             None \<Rightarrow> links_loop list_items transcript_links
           | Some link \<Rightarrow> links_loop list_items (transcript_links @ [full_link_of link])))"

definition extract_transcript_links :: "world \<Rightarrow> string \<Rightarrow> exn + string list" where
  "extract_transcript_links w html_content =
     (case BeautifulSoup w html_content of
        Inl e \<Rightarrow> Inl e
      | Inr soup \<Rightarrow> Inr (links_loop (find_all soup ''li'' (has_class ''flex-wrap-420'')) []))"

subsection \<open>\<open>get_financial_data\<close>\<close>

definition page_headers :: "(string \<times> string) list" where
  "page_headers =
     [(''User-Agent'',
       ''Mozilla/5.0 (Windows NT 10.0; Win64; x64) Chrome/91.0.4472.124 Safari/537.36'')]"

text \<open>
  The loop over the dataset's iterator, which breaks after the first item:
  \<open>ratios = {}\<close> when the iterator yields nothing, \<open>item.get("ratios", item)\<close> of the first
  item otherwise; the iterator's first step may raise.
\<close>

fun ratios_loop :: "(exn + (string \<times> json) list) list \<Rightarrow> exn + json" where
  "ratios_loop [] = Inr (JObj [])"
| "ratios_loop (Inl e # rest) = Inl e"
| "ratios_loop (Inr item # rest) =
     Inr (case map_of item ''ratios'' of None \<Rightarrow> JObj item | Some v \<Rightarrow> v)"

definition company_url :: "string \<Rightarrow> string" where
  "company_url ticker = ''https://www.screener.in/company/'' @ ticker @ ''/consolidated/''"

definition run_input :: "string \<Rightarrow> (string \<times> string) list" where
  "run_input ticker = [(''mode'', ''getstockdetails''), (''url'', company_url ticker)]"

text \<open>The body of the \<open>try\<close> block: the calls made, and the pair returned or the exception.\<close>

definition get_financial_data_try ::
  "world \<Rightarrow> string \<Rightarrow> event list \<times> (exn + json \<times> string list)" where
  "get_financial_data_try w ticker =
     (case actor_call w (run_input ticker) of
        Inl e \<Rightarrow> ([ActorCall (run_input ticker)], Inl e)
      | Inr dataset_id \<Rightarrow>
          (case ratios_loop (iterate_items w dataset_id) of
             Inl e \<Rightarrow> ([ActorCall (run_input ticker), DatasetIterate dataset_id], Inl e)
           | Inr ratios \<Rightarrow>
               ([ActorCall (run_input ticker), DatasetIterate dataset_id,
                 HttpGet (company_url ticker) page_headers 10],
                case requests_get w (company_url ticker) page_headers 10 of
                  Inl e \<Rightarrow> Inl e
                | Inr response \<Rightarrow>
                    if status_code response = 200 then
                      (case extract_transcript_links w (text_body response) of
                         Inl e \<Rightarrow> Inl e
                       | Inr links \<Rightarrow> Inr (ratios, links))
                    else Inr (ratios, []))))"

text \<open>
  \<open>get_financial_data\<close> returns \<open>(ratios, links)\<close>, or \<open>(None, None)\<close> after reporting the
  exception; \<open>None\<close> for the ratios is \<open>JNull\<close>.
\<close>

definition get_financial_data ::
  "world \<Rightarrow> string \<Rightarrow> event list \<times> (json \<times> string list option)" where
  "get_financial_data w ticker =
     (case get_financial_data_try w ticker of
        (evs, Inl e) \<Rightarrow>
          (evs @ [StError (''Data Acquisition Error: '' @ str_exn w e)], (JNull, None))
      | (evs, Inr (ratios, links)) \<Rightarrow> (evs, (ratios, Some links)))"

section \<open>PDF processing: \<open>read_transcript\<close>\<close>

definition browser_agent :: string where
  "browser_agent =
     ''Mozilla/5.0 (Windows NT 10.0; Win64; x64) AppleWebKit/537.36 (KHTML, like Gecko) Chrome/91.0.4472.124 Safari/537.36''"

definition pdf_headers :: "(string \<times> string) list" where
  "pdf_headers = [(''User-Agent'', browser_agent), (''Accept'', ''application/pdf'')]"

definition page_marker :: "nat \<Rightarrow> string" where
  "page_marker i = [NL] @ ''--- PAGE '' @ str_nat (i + 1) @ '' ---'' @ [NL]"

text \<open>
  The loop \<open>for i in range(min(10, num_pages))\<close> over the indices, with the text so far;
  \<open>extract_text()\<close> of a page may raise.
\<close>

fun page_loop :: "(exn + string) list \<Rightarrow> nat list \<Rightarrow> string \<Rightarrow> exn + string" where
  "page_loop pages [] text = Inr text"
| "page_loop pages (i # is) text =
     (case pages ! i of
        Inl e \<Rightarrow> Inl e
      | Inr page_text \<Rightarrow>
          page_loop pages is
            (if page_text \<noteq> [] then text @ page_marker i @ page_text else text))"

definition extract_pages :: "(exn + string) list \<Rightarrow> exn + string" where
  "extract_pages pages =
     (let num_pages = length pages
      in case page_loop pages [0..<min 10 num_pages] [] of
           Inl e \<Rightarrow> Inl e
         | Inr text \<Rightarrow> Inr (if strip text \<noteq> [] then text else ''[Scanned PDF/No Text]''))"

definition read_transcript_try :: "world \<Rightarrow> string \<Rightarrow> event list \<times> (exn + string)" where
  "read_transcript_try w link =
     (case requests_get w link pdf_headers 15 of
        Inl e \<Rightarrow> ([HttpGet link pdf_headers 15], Inl e)
      | Inr response \<Rightarrow>
          (case raise_for_status response of
             Inl e \<Rightarrow> ([HttpGet link pdf_headers 15], Inl e)
           | Inr u \<Rightarrow>
               ([HttpGet link pdf_headers 15, PdfRead (content response)],
                case PdfReader w (content response) of
                  Inl e \<Rightarrow> Inl e
                | Inr pages \<Rightarrow> extract_pages pages)))"

definition read_transcript :: "world \<Rightarrow> string \<Rightarrow> event list \<times> string" where
  "read_transcript w link =
     (case read_transcript_try w link of
        (evs, Inl e) \<Rightarrow> (evs, ''Could not read PDF: '' @ str_exn w e)
      | (evs, Inr text) \<Rightarrow> (evs, text))"

section \<open>AI analysis: \<open>generate_analysis\<close>\<close>

text \<open>
  The decorator \<open>@retry(retry=retry_if_exception_type(Exception),
  wait=wait_random_exponential(min=10, max=60), stop=stop_after_attempt(3))\<close>.
  \<open>wait_exponential\<close> (multiplier 1, base 2) clamps \<open>2 ** (attempt_number - 1)\<close> between
  \<open>max(0, min)\<close> and \<open>max\<close>; \<open>wait_random_exponential\<close> draws uniformly between \<open>min\<close> and
  that value, as \<open>random.uniform(a, b) = a + (b - a) * random()\<close> (this is tenacity from
  its version 8.3.0 on; older versions ignore \<open>min\<close> in the draw and start it at 0). The
  decorator calls the function, and after an exception either stops, once
  \<open>attempt_number >= 3\<close>, or sleeps and calls again; when it stops, \<open>reraise\<close> being left
  at its default \<open>False\<close>, it raises a \<open>RetryError\<close> from the last exception.
\<close>

definition wait_exponential :: "nat \<Rightarrow> real" where
  "wait_exponential attempt_number = max (max 0 10) (min (1 * 2 ^ (attempt_number - 1)) 60)"

definition wait_random_exponential :: "world \<Rightarrow> nat \<Rightarrow> real" where
  "wait_random_exponential w attempt_number =
     10 + (wait_exponential attempt_number - 10) * random_draw w attempt_number"

function retry_loop :: "world \<Rightarrow> string \<Rightarrow> nat \<Rightarrow> event list \<times> (exn + string)" where
  "retry_loop w prompt attempt_number =
     (case generate_content w attempt_number prompt of
        Inr response \<Rightarrow> ([GenerateContent prompt], Inr response)
      | Inl e \<Rightarrow>
          if attempt_number \<ge> 3 then ([GenerateContent prompt], Inl (RetryError e))
          else (case retry_loop w prompt (attempt_number + 1) of
                  (evs, r) \<Rightarrow>
                    (GenerateContent prompt # Sleep (wait_random_exponential w attempt_number)
                       # evs, r)))"
  by pat_completeness auto
termination
  by (relation "measure (\<lambda>(w, prompt, attempt_number). 3 - attempt_number)") auto

declare retry_loop.simps [simp del]

definition generate_analysis :: "world \<Rightarrow> string \<Rightarrow> event list \<times> (exn + string)" where
  "generate_analysis w prompt = retry_loop w prompt 1"

section \<open>\<open>get_company_ratios\<close>\<close>

definition ratio_value :: "node \<Rightarrow> string" where
  "ratio_value value_tag =
     replace ''  '' '' '' (replace [NL] [] (get_text_strip '' '' value_tag))"

text \<open>
  The loop over the entries of the container; \<open>ratios_data[name] = value\<close> replaces the
  value of a name already there and appends a new name (\<open>AList.update\<close>).
\<close>

fun top_ratios_loop :: "node list \<Rightarrow> (string \<times> string) list \<Rightarrow> (string \<times> string) list" where
  "top_ratios_loop [] ratios_data = ratios_data"
| "top_ratios_loop (li # lis) ratios_data =
     (case find_tag li ''span'' (has_class ''name'') of
        None \<Rightarrow> top_ratios_loop lis ratios_data
      | Some name_tag \<Rightarrow>
          (case find_tag li ''span'' (has_class ''value'') of
             None \<Rightarrow> top_ratios_loop lis ratios_data
           | Some value_tag \<Rightarrow>
               top_ratios_loop lis
                 (AList.update (get_text_strip [] name_tag) (ratio_value value_tag)
                    ratios_data)))"

definition top_ratios :: "node \<Rightarrow> (string \<times> string) list" where
  "top_ratios soup =
     (case find_tag soup ''ul'' (has_id ''top-ratios'') of
        None \<Rightarrow> []
      | Some ratios_container \<Rightarrow>
          top_ratios_loop (find_all ratios_container ''li'' (has_class ''flex'')) [])"

text \<open>The body of the \<open>try\<close> block, then the function; its diagnostic prints are left out.\<close>

definition profile_url :: "string \<Rightarrow> string" where
  "profile_url ticker = ''https://www.screener.in/company/'' @ ticker @ ''/''"

definition profile_headers :: "(string \<times> string) list" where
  "profile_headers = [(''User-Agent'', browser_agent)]"

definition get_company_ratios_try :: "world \<Rightarrow> string \<Rightarrow> exn + (string \<times> string) list" where
  "get_company_ratios_try w ticker =
     (case requests_get w (profile_url ticker) profile_headers 10 of
        Inl e \<Rightarrow> Inl e
      | Inr response \<Rightarrow>
          if status_code response \<noteq> 200 then Inr []
          else (case BeautifulSoup w (text_body response) of
                  Inl e \<Rightarrow> Inl e
                | Inr soup \<Rightarrow> Inr (top_ratios soup)))"

definition get_company_ratios :: "world \<Rightarrow> string \<Rightarrow> event list \<times> (string \<times> string) list" where
  "get_company_ratios w ticker =
     ([HttpGet (profile_url ticker) profile_headers 10],
      case get_company_ratios_try w ticker of Inl e \<Rightarrow> [] | Inr ratios_data \<Rightarrow> ratios_data)"

section \<open>The main interface: the \<open>Start Deep Research\<close> handler\<close>

text \<open>
  The loop \<open>for i, link in enumerate(recent_links)\<close> with the text accumulated so far;
  \<open>n\<close> is \<open>len(recent_links)\<close>.
\<close>

definition transcript_header :: "nat \<Rightarrow> string" where
  "transcript_header i = [NL] @ ''--- TRANSCRIPT '' @ str_nat (i + 1) @ '' SOURCE ---'' @ [NL]"

fun transcripts_loop ::
  "world \<Rightarrow> nat \<Rightarrow> (nat \<times> string) list \<Rightarrow> string \<Rightarrow> event list \<times> string" where
  "transcripts_loop w n [] all_transcripts_text = ([], all_transcripts_text)"
| "transcripts_loop w n ((i, link) # rest) all_transcripts_text =
     (case read_transcript w link of
        (evs, transcript) \<Rightarrow>
          (case transcripts_loop w n rest
                  (all_transcripts_text @ transcript_header i @ transcript) of
             (evs', result) \<Rightarrow>
               (StatusWrite (''Downloading & Parsing Transcript '' @ str_nat (i + 1) @ '' of ''
                               @ str_nat n @ ''...'') # evs @ evs',
                result)))"

text \<open>Step 2 of the handler: \<open>links\<close> is \<open>None\<close>, or the list of links.\<close>

definition parse_transcripts :: "world \<Rightarrow> string list option \<Rightarrow> event list \<times> string" where
  "parse_transcripts w links =
     (case links of
        None \<Rightarrow> ([StatusWrite ''No transcripts found. Proceeding with Ratio analysis only.''], [])
      | Some ls \<Rightarrow>
          if ls = [] then
            ([StatusWrite ''No transcripts found. Proceeding with Ratio analysis only.''], [])
          else (let recent_links = take 3 ls
                in transcripts_loop w (length recent_links) (List.enumerate 0 recent_links) []))"

text \<open>The segment of the prompt that holds the transcripts: \<open>all_transcripts_text[:165000]\<close>.\<close>

definition transcript_snippets :: "string \<Rightarrow> string" where
  "transcript_snippets all_transcripts_text = take 165000 all_transcripts_text"

definition audit_prompt ::
  "world \<Rightarrow> string \<Rightarrow> (string \<times> string) list \<Rightarrow> json \<Rightarrow> string \<Rightarrow> string" where
  "audit_prompt w ticker main_ratios ratios all_transcripts_text =
     [NL] @ ''             '' @ [NL]
     @ ''            Company: '' @ ticker @ [NL]
     @ ''            '' @ [NL]
     @ ''            DATA:'' @ [NL]
     @ ''            - Fundamental Ratios and data: '' @ str_dict w main_ratios @ [NL]
     @ ''            - Ratios: '' @ str_json w ratios @ [NL]
     @ ''            - Transcript Snippets: '' @ transcript_snippets all_transcripts_text @ [NL]
     @ ''            '' @ [NL]
     @ ''             '' @ [NL]
     @ [NL]
     @ ''             Assume the role of an experienced fund manager with over 20 years in the stock market. Analyze the company ''
     @ ticker @ report_outline w"

text \<open>
  The handler of the button: everything it does, in order. \<open>ticker\<close> is the text entered,
  already in upper case; \<open>st.stop()\<close> ends the run.
\<close>

definition start_deep_research :: "world \<Rightarrow> string \<Rightarrow> event list" where
  "start_deep_research w ticker =
     (if ticker = [] then [StWarning ''Please enter a ticker.'']
      else
        (case get_company_ratios w ticker of
           (evs1, main_ratios) \<Rightarrow>
             (case get_financial_data w ticker of
                (evs2, (ratios, links)) \<Rightarrow>
                  [StStatus ''Stock analysis in Progress using the management conference call and other many financal data'',
                   StatusWrite ''Scraping Fundamental financial data'']
                  @ evs1
                  @ [StatusWrite ''Gathering Financial Ratios from trusted source which is screener.in & Concall trascript Links...'']
                  @ evs2
                  @ (if \<not> truthy ratios then
                       [StError ''Failed to fetch financial data.'', StStop]
                     else
                       (case parse_transcripts w links of
                          (evs3, all_transcripts_text) \<Rightarrow>
                            (case generate_analysis w
                                    (audit_prompt w ticker main_ratios ratios
                                       all_transcripts_text) of
                               (evs4, r) \<Rightarrow>
                                 evs3
                                 @ [StatusWrite ''Analysing all the data with the standard procedure given by a RA using our AI model.'']
                                 @ evs4
                                 @ (case r of
                                      Inr response_text \<Rightarrow>
                                        [StatusUpdate ''Audit Complete!'', StDivider,
                                         StMarkdown response_text]
                                    | Inl e \<Rightarrow> [StError ('' Error:  '' @ str_exn w e)])))))))"

section \<open>Observations on a run\<close>

text \<open>The href collected from one concall entry, if the entry gives one.\<close>

definition anchor_href :: "node \<Rightarrow> string option" where
  "anchor_href li =
     (case transcript_anchor_of li of
        None \<Rightarrow> None
      | Some transcript_anchor \<Rightarrow> map_of (attrs transcript_anchor) ''href'')"

text \<open>The pair one entry of the ratio list contributes, if it has a name and a value element.\<close>

definition entry_pair :: "node \<Rightarrow> (string \<times> string) option" where
  "entry_pair li =
     (case find_tag li ''span'' (has_class ''name'') of
        None \<Rightarrow> None
      | Some name_tag \<Rightarrow>
          (case find_tag li ''span'' (has_class ''value'') of
             None \<Rightarrow> None
           | Some value_tag \<Rightarrow> Some (get_text_strip [] name_tag, ratio_value value_tag)))"

text \<open>A call of the text generation service.\<close>

fun is_generation :: "event \<Rightarrow> bool" where
  "is_generation (GenerateContent prompt) = True"
| "is_generation ev = False"

text \<open>The link of the document a step downloads, if the step is such a download.\<close>

fun transcript_download :: "event \<Rightarrow> string option" where
  "transcript_download (HttpGet link headers timeout) =
     (if headers = pdf_headers then Some link else None)"
| "transcript_download ev = None"

text \<open>
  A step of \<open>read_transcript\<close>: the download of a document (the request that accepts
  \<open>application/pdf\<close>) or the opening of one.
\<close>

fun is_transcript_read :: "event \<Rightarrow> bool" where
  "is_transcript_read (HttpGet link headers timeout) = (headers = pdf_headers)"
| "is_transcript_read (PdfRead c) = True"
| "is_transcript_read ev = False"


section \<open>Example inputs\<close>

text \<open>
  Pages of the site as markup, each with the tree the parser builds for it. The parser
  keeps a string with a visible character as it is, and stores a string of whitespace
  only as one newline (or one space when it has no newline).
\<close>

definition empty_document :: node where
  "empty_document = Tag ''[document]'' [] []"

text \<open>
  A page with one concall entry: a transcript anchor with a relative href, next to an
  anchor for the slides.
\<close>

definition concall_html :: string where
  \<open>concall_html =
     ''<ul class="list-links"><li class="flex flex-gap-8 flex-wrap-420"><div>Jan 2025</div>''
     @ ''<a class="concall-link" href="/company/X/concalls/123/">Transcript</a>''
     @ ''<a class="concall-link" href="https://x.y/ppt.pdf">PPT</a></li></ul>''\<close>

definition concall_page :: node where
  "concall_page =
     Tag ''[document]'' []
       [Tag ''ul'' [(''class'', ''list-links'')]
          [Tag ''li'' [(''class'', ''flex flex-gap-8 flex-wrap-420'')]
             [Tag ''div'' [] [NavigableString ''Jan 2025''],
              Tag ''a'' [(''class'', ''concall-link''), (''href'', ''/company/X/concalls/123/'')]
                [NavigableString ''Transcript''],
              Tag ''a'' [(''class'', ''concall-link''), (''href'', ''https://x.y/ppt.pdf'')]
                [NavigableString ''PPT'']]]]"

text \<open>A page with one concall entry whose anchor for the slides comes first.\<close>

definition ppt_first_html :: string where
  \<open>ppt_first_html =
     ''<li class="flex-wrap-420"><a class="concall-link" href="https://x.y/ppt.pdf">PPT</a>''
     @ ''<a class="concall-link" href="/t/1.pdf">Transcript</a></li>''\<close>

definition ppt_first_page :: node where
  "ppt_first_page =
     Tag ''[document]'' []
       [Tag ''li'' [(''class'', ''flex-wrap-420'')]
          [Tag ''a'' [(''class'', ''concall-link''), (''href'', ''https://x.y/ppt.pdf'')]
             [NavigableString ''PPT''],
           Tag ''a'' [(''class'', ''concall-link''), (''href'', ''/t/1.pdf'')]
             [NavigableString ''Transcript'']]]"

text \<open>
  A page with eight list items, in this order: an entry with an absolute href; an entry
  with the slides first and a relative href; an entry whose anchor text has spaces around
  \<open>Transcript\<close>; an entry whose first transcript anchor has no href (a second one has);
  a list item that is not a concall entry; an entry whose anchor lacks the class; an
  entry whose anchor has two classes, a nested element around its text and an href that
  starts with \<open>http\<close> without being a URL; an entry with a relative href.
\<close>

definition concalls_html :: string where
  \<open>concalls_html =
     ''<ul class="list-links">''
     @ ''<li class="flex flex-gap-8 flex-wrap-420">''
     @ ''<a class="concall-link" href="https://cdn.x.y/q4.pdf">Transcript</a></li>''
     @ ''<li class="flex-wrap-420"><a class="concall-link" href="https://x.y/q3-ppt.pdf">PPT</a>''
     @ ''<a class="concall-link" href="/t/q3.pdf">Transcript</a></li>''
     @ ''<li class="flex-wrap-420"><a class="concall-link" href="/t/q2.pdf"> Transcript </a></li>''
     @ ''<li class="flex-wrap-420"><a class="concall-link">Transcript</a>''
     @ ''<a class="concall-link" href="/t/q1b.pdf">Transcript</a></li>''
     @ ''<li class="flex"><a class="concall-link" href="/t/other.pdf">Transcript</a></li>''
     @ ''<li class="flex-wrap-420"><a class="link" href="/t/plain.pdf">Transcript</a></li>''
     @ ''<li class="flex-wrap-420">''
     @ ''<a class="btn concall-link" href="httpdocs/q1.pdf"><b>Transcript</b></a></li>''
     @ ''<li class="flex-wrap-420"><a class="concall-link" href="/t/q0.pdf">Transcript</a></li>''
     @ ''</ul>''\<close>

definition concalls_page :: node where
  "concalls_page =
     Tag ''[document]'' []
       [Tag ''ul'' [(''class'', ''list-links'')]
          [Tag ''li'' [(''class'', ''flex flex-gap-8 flex-wrap-420'')]
             [Tag ''a'' [(''class'', ''concall-link''), (''href'', ''https://cdn.x.y/q4.pdf'')]
                [NavigableString ''Transcript'']],
           Tag ''li'' [(''class'', ''flex-wrap-420'')]
             [Tag ''a'' [(''class'', ''concall-link''), (''href'', ''https://x.y/q3-ppt.pdf'')]
                [NavigableString ''PPT''],
              Tag ''a'' [(''class'', ''concall-link''), (''href'', ''/t/q3.pdf'')]
                [NavigableString ''Transcript'']],
           Tag ''li'' [(''class'', ''flex-wrap-420'')]
             [Tag ''a'' [(''class'', ''concall-link''), (''href'', ''/t/q2.pdf'')]
                [NavigableString '' Transcript '']],
           Tag ''li'' [(''class'', ''flex-wrap-420'')]
             [Tag ''a'' [(''class'', ''concall-link'')] [NavigableString ''Transcript''],
              Tag ''a'' [(''class'', ''concall-link''), (''href'', ''/t/q1b.pdf'')]
                [NavigableString ''Transcript'']],
           Tag ''li'' [(''class'', ''flex'')]
             [Tag ''a'' [(''class'', ''concall-link''), (''href'', ''/t/other.pdf'')]
                [NavigableString ''Transcript'']],
           Tag ''li'' [(''class'', ''flex-wrap-420'')]
             [Tag ''a'' [(''class'', ''link''), (''href'', ''/t/plain.pdf'')]
                [NavigableString ''Transcript'']],
           Tag ''li'' [(''class'', ''flex-wrap-420'')]
             [Tag ''a'' [(''class'', ''btn concall-link''), (''href'', ''httpdocs/q1.pdf'')]
                [Tag ''b'' [] [NavigableString ''Transcript'']]],
           Tag ''li'' [(''class'', ''flex-wrap-420'')]
             [Tag ''a'' [(''class'', ''concall-link''), (''href'', ''/t/q0.pdf'')]
                [NavigableString ''Transcript'']]]]"

text \<open>
  A page with the ratio list of two entries: the name of P/E has newlines around it and
  its value is nested and has a trailing space; the value of ROE has a newline and two
  spaces inside.
\<close>

definition ratio_html :: string where
  \<open>ratio_html =
     ''<ul id="top-ratios"><li class="flex flex-space-between"><span class="name">''
     @ [NL] @ ''  P/E'' @ [NL] @ ''</span><span class="nowrap value">'' @ [NL]
     @ ''<span class="number">23.5 </span>'' @ [NL] @ ''</span></li>''
     @ ''<li class="flex flex-space-between"><span class="name">ROE</span>''
     @ ''<span class="nowrap value">'' @ [NL] @ ''  18'' @ [NL] @ ''  %'' @ [NL]
     @ ''</span></li></ul>''\<close>

definition ratio_page :: node where
  "ratio_page =
     Tag ''[document]'' []
       [Tag ''ul'' [(''id'', ''top-ratios'')]
          [Tag ''li'' [(''class'', ''flex flex-space-between'')]
             [Tag ''span'' [(''class'', ''name'')] [NavigableString ([NL] @ ''  P/E'' @ [NL])],
              Tag ''span'' [(''class'', ''nowrap value'')]
                [NavigableString [NL],
                 Tag ''span'' [(''class'', ''number'')] [NavigableString ''23.5 ''],
                 NavigableString [NL]]],
           Tag ''li'' [(''class'', ''flex flex-space-between'')]
             [Tag ''span'' [(''class'', ''name'')] [NavigableString ''ROE''],
              Tag ''span'' [(''class'', ''nowrap value'')]
                [NavigableString ([NL] @ ''  18'' @ [NL] @ ''  %'' @ [NL])]]]]"

text \<open>
  A page with a ratio list of eight list items, in this order: a value of three fragments;
  a first value for \<open>Book Value\<close>; a value of two numbers around a slash; a name of two
  fragments with a value that has four spaces inside; a value with a comment and a script
  inside; an entry without a value; a list item whose class is not \<open>flex\<close>; a second value
  for \<open>Book Value\<close>.
\<close>

definition ratios_html :: string where
  \<open>ratios_html =
     ''<ul id="top-ratios">''
     @ ''<li class="flex flex-space-between"><span class="name">Market Cap</span>''
     @ ''<span class="nowrap value">Rs. <span class="number">1,234</span> Cr.</span></li>''
     @ ''<li class="flex"><span class="name">Book Value</span><span class="value">10</span></li>''
     @ ''<li class="flex"><span class="name">High / Low</span><span class="value">''
     @ ''<span class="number">1,500</span> / <span class="number">1,100</span></span></li>''
     @ ''<li class="flex"><span class="name">Stock <b>P/E</b></span>''
     @ ''<span class="value">1    2</span></li>''
     @ ''<li class="flex"><span class="name">Yield</span>''
     @ ''<span class="value">1<!--hidden--> %<script>var x=1;</script></span></li>''
     @ ''<li class="flex"><span class="name">No value</span></li>''
     @ ''<li class="flexbox"><span class="name">Other</span><span class="value">9</span></li>''
     @ ''<li class="flex"><span class="name">Book Value</span><span class="value">12</span></li>''
     @ ''</ul>''\<close>

definition ratios_page :: node where
  "ratios_page =
     Tag ''[document]'' []
       [Tag ''ul'' [(''id'', ''top-ratios'')]
          [Tag ''li'' [(''class'', ''flex flex-space-between'')]
             [Tag ''span'' [(''class'', ''name'')] [NavigableString ''Market Cap''],
              Tag ''span'' [(''class'', ''nowrap value'')]
                [NavigableString ''Rs. '',
                 Tag ''span'' [(''class'', ''number'')] [NavigableString ''1,234''],
                 NavigableString '' Cr.'']],
           Tag ''li'' [(''class'', ''flex'')]
             [Tag ''span'' [(''class'', ''name'')] [NavigableString ''Book Value''],
              Tag ''span'' [(''class'', ''value'')] [NavigableString ''10'']],
           Tag ''li'' [(''class'', ''flex'')]
             [Tag ''span'' [(''class'', ''name'')] [NavigableString ''High / Low''],
              Tag ''span'' [(''class'', ''value'')]
                [Tag ''span'' [(''class'', ''number'')] [NavigableString ''1,500''],
                 NavigableString '' / '',
                 Tag ''span'' [(''class'', ''number'')] [NavigableString ''1,100'']]],
           Tag ''li'' [(''class'', ''flex'')]
             [Tag ''span'' [(''class'', ''name'')]
                [NavigableString ''Stock '', Tag ''b'' [] [NavigableString ''P/E'']],
              Tag ''span'' [(''class'', ''value'')] [NavigableString ''1    2'']],
           Tag ''li'' [(''class'', ''flex'')]
             [Tag ''span'' [(''class'', ''name'')] [NavigableString ''Yield''],
              Tag ''span'' [(''class'', ''value'')]
                [NavigableString ''1'',
                 OtherString Comment ''hidden'',
                 NavigableString '' %'',
                 Tag ''script'' [] [OtherString Script ''var x=1;'']]],
           Tag ''li'' [(''class'', ''flex'')]
             [Tag ''span'' [(''class'', ''name'')] [NavigableString ''No value'']],
           Tag ''li'' [(''class'', ''flexbox'')]
             [Tag ''span'' [(''class'', ''name'')] [NavigableString ''Other''],
              Tag ''span'' [(''class'', ''value'')] [NavigableString ''9'']],
           Tag ''li'' [(''class'', ''flex'')]
             [Tag ''span'' [(''class'', ''name'')] [NavigableString ''Book Value''],
              Tag ''span'' [(''class'', ''value'')] [NavigableString ''12'']]]]"

text \<open>
  Markup with a stray end tag and without the end tags of its own elements, and the tree
  the lenient parser builds for it (the open elements are closed at the end of the input).
\<close>

definition malformed_html :: string where
  "malformed_html =
     ''</div><li class=flex-wrap-420><a class=concall-link href=/t.pdf>Transcript''"

definition malformed_tree :: node where
  "malformed_tree =
     Tag ''[document]'' []
       [Tag ''li'' [(''class'', ''flex-wrap-420'')]
          [Tag ''a'' [(''class'', ''concall-link''), (''href'', ''/t.pdf'')]
             [NavigableString ''Transcript'']]]"

text \<open>
  A page without the expected structure: a \<open>div\<close> with the id \<open>top-ratios\<close> around a
  list with another id; the list \<open>top-ratios\<close> with an entry whose value is not in a
  \<open>span\<close> and a list item that is not an entry; a list item that is not a concall entry;
  a concall entry whose first transcript anchor has no href.
\<close>

definition unstructured_html :: string where
  \<open>unstructured_html =
     ''<div id="top-ratios"><ul id="ratios"><li class="flex">''
     @ ''<span class="name">P/E</span><span class="value">1</span></li></ul></div>''
     @ ''<ul id="top-ratios">''
     @ ''<li class="flex"><span class="name">ROE</span><b class="value">9</b></li>''
     @ ''<li class="row"><span class="name">A</span><span class="value">2</span></li></ul>''
     @ ''<ol><li class="flex-wrap"><a class="concall-link" href="/a.pdf">Transcript</a></li>''
     @ ''<li class="flex-wrap-420"><a class="concall-link" href="/b.pdf">PPT</a>''
     @ ''<a class="concall-link">Transcript</a>''
     @ ''<a class="concall-link" href="/c.pdf">Transcript</a></li></ol>''\<close>

definition unstructured_page :: node where
  "unstructured_page =
     Tag ''[document]'' []
       [Tag ''div'' [(''id'', ''top-ratios'')]
          [Tag ''ul'' [(''id'', ''ratios'')]
             [Tag ''li'' [(''class'', ''flex'')]
                [Tag ''span'' [(''class'', ''name'')] [NavigableString ''P/E''],
                 Tag ''span'' [(''class'', ''value'')] [NavigableString ''1'']]]],
        Tag ''ul'' [(''id'', ''top-ratios'')]
          [Tag ''li'' [(''class'', ''flex'')]
             [Tag ''span'' [(''class'', ''name'')] [NavigableString ''ROE''],
              Tag ''b'' [(''class'', ''value'')] [NavigableString ''9'']],
           Tag ''li'' [(''class'', ''row'')]
             [Tag ''span'' [(''class'', ''name'')] [NavigableString ''A''],
              Tag ''span'' [(''class'', ''value'')] [NavigableString ''2'']]],
        Tag ''ol'' []
          [Tag ''li'' [(''class'', ''flex-wrap'')]
             [Tag ''a'' [(''class'', ''concall-link''), (''href'', ''/a.pdf'')]
                [NavigableString ''Transcript'']],
           Tag ''li'' [(''class'', ''flex-wrap-420'')]
             [Tag ''a'' [(''class'', ''concall-link''), (''href'', ''/b.pdf'')]
                [NavigableString ''PPT''],
              Tag ''a'' [(''class'', ''concall-link'')] [NavigableString ''Transcript''],
              Tag ''a'' [(''class'', ''concall-link''), (''href'', ''/c.pdf'')]
                [NavigableString ''Transcript'']]]]"

text \<open>
  The parser on these markups; any other text is taken as text without tags.
\<close>

definition example_pages :: "(string \<times> node) list" where
  "example_pages =
     [([], empty_document), (malformed_html, malformed_tree), (concall_html, concall_page),
      (ppt_first_html, ppt_first_page), (concalls_html, concalls_page),
      (ratio_html, ratio_page), (ratios_html, ratios_page),
      (unstructured_html, unstructured_page)]"

definition example_parser :: "string \<Rightarrow> exn + node" where
  "example_parser html =
     (case map_of example_pages html of
        Some tree \<Rightarrow> Inr tree
      | None \<Rightarrow> Inr (Tag ''[document]'' [] [NavigableString html]))"

text \<open>
  A world in which every call succeeds: the actor's dataset has two items, the profile
  page of the ticker X is the page with the ratio list of two entries and every other
  page is the page with one concall entry, every document has twelve pages (the second
  without text), and the generation service answers at the third call.
\<close>

definition twelve_pages :: "(exn + string) list" where
  "twelve_pages =
     [Inr ''Good morning'', Inr [], Inr ''Q and A'', Inr ''p4'', Inr ''p5'', Inr ''p6'',
      Inr ''p7'', Inr ''p8'', Inr ''p9'', Inr ''p10'', Inl (Exn ''broken page''), Inr ''p12'']"

definition base_world :: world where
  "base_world =
     \<lparr> actor_call = (\<lambda>run_input. Inr ''dataset-1''),
       iterate_items =
         (\<lambda>dataset_id. [Inr [(''name'', JStr ''X''), (''ratios'', JObj [(''ROCE'', JStr ''21 %'')])],
                         Inr [(''ratios'', JNull)]]),
       requests_get =
         (\<lambda>link headers timeout.
            Inr \<lparr> status_code = 200, reason = ''OK'', url = link,
                  text_body =
                    (if link = ''https://www.screener.in/company/X/'' then ratio_html
                     else concall_html),
                  content = ''%PDF'' \<rparr>),
       BeautifulSoup = example_parser,
       PdfReader = (\<lambda>c. Inr twelve_pages),
       generate_content =
         (\<lambda>n prompt. if n < 3 then Inl (Exn ''503 UNAVAILABLE'') else Inr ''The report''),
       random_draw = (\<lambda>n. 1 / 2),
       str_dict =
         (\<lambda>d. ''{'' @ join '', ''
                        (map (\<lambda>(k, v). [CHR 0x27] @ k @ [CHR 0x27] @ '': ''
                                       @ [CHR 0x27] @ v @ [CHR 0x27]) d) @ ''}''),
       str_json = (\<lambda>j. ''{...}''),
       str_retry_error = (\<lambda>e. ''RetryError[...]''),
       report_outline = '' and provide a detailed report.'' \<rparr>"

text \<open>The base world in which every page is the page given.\<close>

definition page_world :: "string \<Rightarrow> world" where
  "page_world html =
     base_world \<lparr> requests_get := (\<lambda>link headers timeout.
       Inr \<lparr> status_code = 200, reason = ''OK'', url = link, text_body = html,
             content = ''%PDF'' \<rparr>) \<rparr>"

text \<open>The base world with an empty dataset, and with every HTTP request failing.\<close>

definition empty_dataset_world :: world where
  "empty_dataset_world = base_world \<lparr> iterate_items := (\<lambda>dataset_id. []) \<rparr>"

definition page_down_world :: world where
  "page_down_world =
     base_world \<lparr> requests_get := (\<lambda>link headers timeout. Inl (Exn ''Connection timed out'')) \<rparr>"

text \<open>
  The base world with documents of one page whose text is one space, and with every
  download of a document failing.
\<close>

definition blank_pdf_world :: world where
  "blank_pdf_world = base_world \<lparr> PdfReader := (\<lambda>c. Inr [Inr '' '']) \<rparr>"

definition pdf_down_world :: world where
  "pdf_down_world =
     base_world \<lparr> requests_get := (\<lambda>link headers timeout.
       if headers = pdf_headers then Inl (Exn ''Connection timed out'')
       else requests_get base_world link headers timeout) \<rparr>"

text \<open>
  The base world with every request answered by 404, with a PDF reader that rejects the
  document, and with a document whose second page cannot be extracted.
\<close>

definition not_found_world :: world where
  "not_found_world =
     base_world \<lparr> requests_get := (\<lambda>link headers timeout.
       Inr \<lparr> status_code = 404, reason = ''Not Found'', url = link, text_body = [],
             content = [] \<rparr>) \<rparr>"

definition bad_pdf_world :: world where
  "bad_pdf_world = base_world \<lparr> PdfReader := (\<lambda>c. Inl (Exn ''EOF marker not found'')) \<rparr>"

definition bad_page_world :: world where
  "bad_page_world =
     base_world \<lparr> PdfReader := (\<lambda>c. Inr [Inr ''Good morning'', Inl (Exn ''broken page'')]) \<rparr>"

text \<open>
  The base world in which the concall page of the company is the page with the eight
  concall list items (four links), the content of the document behind a link is the link
  itself, and a document has one page, whose text names the content.
\<close>

definition four_links_world :: world where
  "four_links_world =
     base_world \<lparr> requests_get := (\<lambda>link headers timeout.
         Inr \<lparr> status_code = 200, reason = ''OK'', url = link,
               text_body =
                 (if link = ''https://www.screener.in/company/X/'' then ratio_html
                  else concalls_html),
               content = link \<rparr>),
       PdfReader := (\<lambda>c. Inr [Inr (''Call of '' @ c)]) \<rparr>"


section \<open>The transcript link extractor\<close>

lemma links_loop_map:
  "links_loop list_items transcript_links =
     transcript_links @ map full_link_of (List.map_filter anchor_href list_items)"
  by (induction list_items arbitrary: transcript_links)
     (auto simp: anchor_href_def split: option.splits)

lemma full_link_of_http: "startswith (full_link_of link) ''http''"
  by (simp add: full_link_of_def startswith_def)

lemma anchor_href_explicit:
  "anchor_href =
     (\<lambda>li. case find_tag li ''a''
                  (\<lambda>a. has_class ''concall-link'' a \<and> tag_string a = Some ''Transcript'') of
             None \<Rightarrow> None
           | Some transcript_anchor \<Rightarrow> map_of (attrs transcript_anchor) ''href'')"
  by (rule ext) (simp add: anchor_href_def transcript_anchor_of_def)

lemma full_link_of_explicit:
  "full_link_of =
     (\<lambda>link. if startswith link ''http'' then link else ''https://www.screener.in'' @ link)"
  by (rule ext) (simp add: full_link_of_def)

lemma extract_transcript_links_parsed:
  assumes "BeautifulSoup w html_content = Inr soup"
  shows "extract_transcript_links w html_content =
           Inr (links_loop (find_all soup ''li'' (has_class ''flex-wrap-420'')) [])"
  using assms by (simp add: extract_transcript_links_def)

lemma concall_page_links:
  "links_loop (find_all concall_page ''li'' (has_class ''flex-wrap-420'')) [] =
     [''https://www.screener.in/company/X/concalls/123/'']"
  by code_simp

lemma ppt_first_page_links:
  "links_loop (find_all ppt_first_page ''li'' (has_class ''flex-wrap-420'')) [] =
     [''https://www.screener.in/t/1.pdf'']"
  by code_simp

lemma concalls_page_links:
  "links_loop (find_all concalls_page ''li'' (has_class ''flex-wrap-420'')) [] =
     [''https://cdn.x.y/q4.pdf'', ''https://www.screener.in/t/q3.pdf'', ''httpdocs/q1.pdf'',
      ''https://www.screener.in/t/q0.pdf'']"
  by code_simp

text \<open>
  C7: for the page with one concall entry whose transcript anchor (class \<open>concall-link\<close>,
  text exactly \<open>Transcript\<close>) has the href \<open>/company/X/concalls/123/\<close>, the extractor
  returns exactly the one link \<open>https://www.screener.in/company/X/concalls/123/\<close>; it
  takes the transcript anchor also when the anchor for the slides comes first, and on the
  page with eight list items it returns the four links of the entries that have a
  transcript anchor with an href. For every page, the links returned are, in page order,
  the hrefs of the first anchor with the class \<open>concall-link\<close> and the text \<open>Transcript\<close>
  of each entry, each left as it is when it starts with \<open>http\<close> and prefixed with the site
  origin otherwise; so every link returned starts with \<open>http\<close>.
\<close>

theorem extract_transcript_links_absolute:
  assumes "BeautifulSoup w html_content = Inr soup"
  shows "(soup = concall_page \<longrightarrow>
            extract_transcript_links w html_content =
              Inr [''https://www.screener.in/company/X/concalls/123/''])
       \<and> (soup = ppt_first_page \<longrightarrow>
            extract_transcript_links w html_content = Inr [''https://www.screener.in/t/1.pdf''])
       \<and> (soup = concalls_page \<longrightarrow>
            extract_transcript_links w html_content =
              Inr [''https://cdn.x.y/q4.pdf'', ''https://www.screener.in/t/q3.pdf'',
                   ''httpdocs/q1.pdf'', ''https://www.screener.in/t/q0.pdf''])
       \<and> extract_transcript_links w html_content =
            Inr (map (\<lambda>link. if startswith link ''http'' then link
                              else ''https://www.screener.in'' @ link)
                   (List.map_filter
                      (\<lambda>li. case find_tag li ''a''
                                   (\<lambda>a. has_class ''concall-link'' a
                                        \<and> tag_string a = Some ''Transcript'') of
                              None \<Rightarrow> None
                            | Some transcript_anchor \<Rightarrow>
                                map_of (attrs transcript_anchor) ''href'')
                      (find_all soup ''li'' (has_class ''flex-wrap-420''))))
       \<and> (\<forall>links. extract_transcript_links w html_content = Inr links \<longrightarrow>
              (\<forall>full_link \<in> set links. startswith full_link ''http''))"
proof -
  note parsed = extract_transcript_links_parsed [OF assms]
  have general: "extract_transcript_links w html_content =
      Inr (map full_link_of
             (List.map_filter anchor_href (find_all soup ''li'' (has_class ''flex-wrap-420''))))"
    unfolding parsed by (simp add: links_loop_map)
  have one: "soup = concall_page \<longrightarrow>
          extract_transcript_links w html_content =
            Inr [''https://www.screener.in/company/X/concalls/123/'']"
    unfolding parsed using concall_page_links by simp
  have ppt: "soup = ppt_first_page \<longrightarrow>
            extract_transcript_links w html_content = Inr [''https://www.screener.in/t/1.pdf'']"
    unfolding parsed using ppt_first_page_links by simp
  have many: "soup = concalls_page \<longrightarrow>
            extract_transcript_links w html_content =
              Inr [''https://cdn.x.y/q4.pdf'', ''https://www.screener.in/t/q3.pdf'',
                   ''httpdocs/q1.pdf'', ''https://www.screener.in/t/q0.pdf'']"
    unfolding parsed using concalls_page_links by simp
  have http: "\<forall>links. extract_transcript_links w html_content = Inr links \<longrightarrow>
              (\<forall>full_link \<in> set links. startswith full_link ''http'')"
    using general full_link_of_http by auto
  from one ppt many http general [unfolded anchor_href_explicit full_link_of_explicit]
  show ?thesis by (intro conjI)
qed

lemma example_parser_pages:
  "example_parser concall_html = Inr concall_page"
  "example_parser ppt_first_html = Inr ppt_first_page"
  "example_parser concalls_html = Inr concalls_page"
  "example_parser ratio_html = Inr ratio_page"
  "example_parser ratios_html = Inr ratios_page"
  "example_parser malformed_html = Inr malformed_tree"
  "example_parser [] = Inr empty_document"
  by code_simp+

theorem extract_transcript_links_absolute_witness:
  "BeautifulSoup base_world concall_html = Inr concall_page
   \<and> extract_transcript_links base_world concall_html =
       Inr [''https://www.screener.in/company/X/concalls/123/'']
   \<and> BeautifulSoup base_world ppt_first_html = Inr ppt_first_page
   \<and> extract_transcript_links base_world ppt_first_html = Inr [''https://www.screener.in/t/1.pdf'']
   \<and> BeautifulSoup base_world concalls_html = Inr concalls_page
   \<and> extract_transcript_links base_world concalls_html =
       Inr [''https://cdn.x.y/q4.pdf'', ''https://www.screener.in/t/q3.pdf'',
            ''httpdocs/q1.pdf'', ''https://www.screener.in/t/q0.pdf'']"
proof -
  have h1: "BeautifulSoup base_world concall_html = Inr concall_page"
    and h2: "BeautifulSoup base_world ppt_first_html = Inr ppt_first_page"
    and h3: "BeautifulSoup base_world concalls_html = Inr concalls_page"
    by (simp_all add: base_world_def example_parser_pages)
  have r1: "extract_transcript_links base_world concall_html =
       Inr [''https://www.screener.in/company/X/concalls/123/'']"
    by (rule extract_transcript_links_absolute [OF h1, THEN conjunct1, THEN mp]) (rule refl)
  have r2: "extract_transcript_links base_world ppt_first_html =
       Inr [''https://www.screener.in/t/1.pdf'']"
    by (rule extract_transcript_links_absolute
          [OF h2, THEN conjunct2, THEN conjunct1, THEN mp]) (rule refl)
  have r3: "extract_transcript_links base_world concalls_html =
       Inr [''https://cdn.x.y/q4.pdf'', ''https://www.screener.in/t/q3.pdf'',
            ''httpdocs/q1.pdf'', ''https://www.screener.in/t/q0.pdf'']"
    by (rule extract_transcript_links_absolute
          [OF h3, THEN conjunct2, THEN conjunct2, THEN conjunct1, THEN mp]) (rule refl)
  from h1 r1 h2 r2 h3 r3 show ?thesis by (intro conjI)
qed

section \<open>The ratio extractor\<close>

lemma set_replace: "set (replace old new s) \<subseteq> set new \<union> set s"
proof (induction old new s rule: replace.induct)
  case (1 old new s)
  show ?case
  proof (cases "old = []")
    case True
    then show ?thesis by (subst replace.simps) auto
  next
    case False
    note old = this
    show ?thesis
    proof (cases "s = []")
      case True
      then show ?thesis using old by (subst replace.simps) simp
    next
      case False
      note s = this
      show ?thesis
      proof (cases "startswith s old")
        case True
        have "set (drop (length old) s) \<subseteq> set s" by (rule set_drop_subset)
        with 1(1)[OF old s True] True old s show ?thesis
          by (subst replace.simps) auto
      next
        case False
        have "set (tl s) \<subseteq> set s" using s by (cases s) auto
        moreover have "hd s \<in> set s" using s by simp
        ultimately show ?thesis using 1(2)[OF old s False] False old s
          by (subst replace.simps) auto
      qed
    qed
  qed
qed

lemma replace_removes: "c \<notin> set (replace [c] [] s)"
proof (induction s)
  case Nil
  then show ?case by (subst replace.simps) simp
next
  case (Cons a s)
  then show ?case by (subst replace.simps) (simp add: startswith_def)
qed

lemma ratio_value_no_newline: "NL \<notin> set (ratio_value value_tag)"
proof -
  have "set (ratio_value value_tag) \<subseteq> set '' '' \<union> set (replace [NL] [] (get_text_strip '' '' value_tag))"
    unfolding ratio_value_def by (rule set_replace)
  then show ?thesis using replace_removes [of NL "get_text_strip '' '' value_tag"] by auto
qed

lemma set_update_subset: "set (AList.update k v al) \<subseteq> insert (k, v) (set al)"
  by (induction al) auto

lemma top_ratios_loop_entries:
  "kv \<in> set (top_ratios_loop lis ratios_data) \<Longrightarrow>
     kv \<in> set ratios_data \<or> (\<exists>li \<in> set lis. entry_pair li = Some kv)"
proof (induction lis arbitrary: ratios_data)
  case Nil
  then show ?case by simp
next
  case (Cons li lis)
  show ?case
  proof (cases "find_tag li ''span'' (has_class ''name'')")
    case None
    then show ?thesis using Cons by auto
  next
    case (Some name_tag)
    note n = this
    show ?thesis
    proof (cases "find_tag li ''span'' (has_class ''value'')")
      case None
      then show ?thesis using Cons n by auto
    next
      case (Some value_tag)
      with n Cons.prems have "kv \<in> set (top_ratios_loop lis
          (AList.update (get_text_strip [] name_tag) (ratio_value value_tag) ratios_data))"
        by simp
      from Cons.IH [OF this] show ?thesis
      proof
        assume "kv \<in> set (AList.update (get_text_strip [] name_tag) (ratio_value value_tag) ratios_data)"
        then have "kv = (get_text_strip [] name_tag, ratio_value value_tag) \<or> kv \<in> set ratios_data"
          using set_update_subset by fastforce
        then show ?thesis using n Some by (auto simp: entry_pair_def)
      next
        assume "\<exists>li \<in> set lis. entry_pair li = Some kv"
        then show ?thesis by auto
      qed
    qed
  qed
qed

lemma top_ratios_entries:
  "kv \<in> set (top_ratios soup) \<Longrightarrow> \<exists>li. entry_pair li = Some kv"
  using top_ratios_loop_entries [of kv _ "[]"]
  by (auto simp: top_ratios_def split: option.splits)

lemma get_company_ratios_page:
  assumes "requests_get w (profile_url ticker) profile_headers 10 = Inr response"
    and "status_code response = 200"
    and "BeautifulSoup w (text_body response) = Inr soup"
  shows "snd (get_company_ratios w ticker) = top_ratios soup"
  using assms by (simp add: get_company_ratios_def get_company_ratios_try_def)


lemma entry_pair_explicit:
  "entry_pair =
     (\<lambda>li. case find_tag li ''span'' (has_class ''name'') of
                        None \<Rightarrow> None
                      | Some name_tag \<Rightarrow>
                          (case find_tag li ''span'' (has_class ''value'') of
                             None \<Rightarrow> None
                           | Some value_tag \<Rightarrow>
                               Some (join [] (stripped_strings name_tag),
                                     replace ''  '' '' ''
                                       (replace [NL] []
                                          (join '' '' (stripped_strings value_tag))))))"
  by (rule ext)
     (simp add: entry_pair_def ratio_value_def get_text_strip_def split: option.splits)

lemma top_ratios_loop_fold:
  "top_ratios_loop lis ratios_data =
     foldl (\<lambda>d kv. AList.update (fst kv) (snd kv) d) ratios_data
       (List.map_filter entry_pair lis)"
  by (induction lis arbitrary: ratios_data)
     (auto simp: entry_pair_def List.map_filter_simps split: option.splits)

lemma map_of_fold_update:
  "map_of (foldl (\<lambda>d kv. AList.update (fst kv) (snd kv) d) d ps) = map_of d ++ map_of (rev ps)"
proof (induction ps arbitrary: d)
  case Nil
  then show ?case by simp
next
  case (Cons p ps)
  have "map_of (foldl (\<lambda>d kv. AList.update (fst kv) (snd kv) d) d (p # ps)) =
        map_of (AList.update (fst p) (snd p) d) ++ map_of (rev ps)"
    using Cons.IH by simp
  also have "map_of (AList.update (fst p) (snd p) d) = map_of d ++ map_of [p]"
    by (cases p) (simp add: update_conv')
  also have "(map_of d ++ map_of [p]) ++ map_of (rev ps) = map_of d ++ map_of (rev (p # ps))"
    by simp
  finally show ?case .
qed

lemma distinct_fold_update:
  "distinct (map fst d) \<Longrightarrow>
     distinct (map fst (foldl (\<lambda>d kv. AList.update (fst kv) (snd kv) d) d ps))"
  by (induction ps arbitrary: d) (simp_all add: distinct_update)

lemma update_new_key: "k \<notin> fst ` set al \<Longrightarrow> AList.update k v al = al @ [(k, v)]"
  by (induction al) auto

lemma fold_update_distinct:
  "distinct (map fst (d @ ps)) \<Longrightarrow>
     foldl (\<lambda>d kv. AList.update (fst kv) (snd kv) d) d ps = d @ ps"
proof (induction ps arbitrary: d)
  case Nil
  then show ?case by simp
next
  case (Cons p ps)
  have new: "fst p \<notin> fst ` set d" using Cons.prems by auto
  have "AList.update (fst p) (snd p) d = d @ [p]"
    using update_new_key [OF new, of "snd p"] by simp
  moreover have "distinct (map fst ((d @ [p]) @ ps))" using Cons.prems by simp
  ultimately show ?case using Cons.IH [of "d @ [p]"] by simp
qed

lemma ratio_page_example: "top_ratios ratio_page = [(''P/E'', ''23.5''), (''ROE'', ''18 %'')]"
  by code_simp

lemma ratios_page_example:
  "top_ratios ratios_page =
     [(''Market Cap'', ''Rs. 1,234 Cr.''), (''Book Value'', ''12''),
      (''High / Low'', ''1,500 / 1,100''), (''StockP/E'', ''1  2''), (''Yield'', ''1 %'')]"
  by code_simp

text \<open>
  C8: for the page whose ratio list has the entries P/E (value nested, with a trailing
  space) and ROE (value with a newline and two spaces inside), the extractor returns
  exactly \<open>{"P/E": "23.5", "ROE": "18 %"}\<close>; on the page with the ratio list of eight list
  items it returns the five ratios of that page, a value of several fragments joined with
  single spaces, the text of a comment or a script left out, four spaces collapsed to
  two. For every page with a ratio list, each entry that has a name and a value element
  gives the pair of its name (the stripped fragments of the name element, joined) and its
  value (the stripped fragments of the value element joined with one space, then every
  newline removed, then every pair of spaces replaced by one space): the dictionary
  returned maps every name to the value of the last entry with that name, has every name
  once, and is the list of these pairs in page order when the names differ. No value
  returned contains a newline.
\<close>

theorem get_company_ratios_normalized:
  assumes "requests_get w (profile_url ticker) profile_headers 10 = Inr response"
    and "status_code response = 200"
    and "BeautifulSoup w (text_body response) = Inr soup"
  shows "(soup = ratio_page \<longrightarrow>
            snd (get_company_ratios w ticker) = [(''P/E'', ''23.5''), (''ROE'', ''18 %'')])
       \<and> (soup = ratios_page \<longrightarrow>
            snd (get_company_ratios w ticker) =
              [(''Market Cap'', ''Rs. 1,234 Cr.''), (''Book Value'', ''12''),
               (''High / Low'', ''1,500 / 1,100''), (''StockP/E'', ''1  2''),
               (''Yield'', ''1 %'')])
       \<and> (let pair = (\<lambda>li. case find_tag li ''span'' (has_class ''name'') of
                        None \<Rightarrow> None
                      | Some name_tag \<Rightarrow>
                          (case find_tag li ''span'' (has_class ''value'') of
                             None \<Rightarrow> None
                           | Some value_tag \<Rightarrow>
                               Some (join [] (stripped_strings name_tag),
                                     replace ''  '' '' ''
                                       (replace [NL] []
                                          (join '' '' (stripped_strings value_tag))))))
         in \<forall>ratios_container.
              find_tag soup ''ul'' (has_id ''top-ratios'') = Some ratios_container \<longrightarrow>
              map_of (snd (get_company_ratios w ticker)) =
                map_of (rev (List.map_filter pair
                               (find_all ratios_container ''li'' (has_class ''flex''))))
            \<and> distinct (map fst (snd (get_company_ratios w ticker)))
            \<and> (distinct (map fst (List.map_filter pair
                                    (find_all ratios_container ''li'' (has_class ''flex'')))) \<longrightarrow>
                snd (get_company_ratios w ticker) =
                  List.map_filter pair
                    (find_all ratios_container ''li'' (has_class ''flex''))))
       \<and> (\<forall>(name, value) \<in> set (snd (get_company_ratios w ticker)). NL \<notin> set value)"
proof -
  have page: "snd (get_company_ratios w ticker) = top_ratios soup"
    using assms by (rule get_company_ratios_page)
  have ex1: "soup = ratio_page \<longrightarrow>
          snd (get_company_ratios w ticker) = [(''P/E'', ''23.5''), (''ROE'', ''18 %'')]"
    using page ratio_page_example by simp
  have ex2: "soup = ratios_page \<longrightarrow>
            snd (get_company_ratios w ticker) =
              [(''Market Cap'', ''Rs. 1,234 Cr.''), (''Book Value'', ''12''),
               (''High / Low'', ''1,500 / 1,100''), (''StockP/E'', ''1  2''),
               (''Yield'', ''1 %'')]"
    using page ratios_page_example by simp
  have gen: "\<forall>ratios_container.
              find_tag soup ''ul'' (has_id ''top-ratios'') = Some ratios_container \<longrightarrow>
              map_of (snd (get_company_ratios w ticker)) =
                map_of (rev (List.map_filter entry_pair
                               (find_all ratios_container ''li'' (has_class ''flex''))))
            \<and> distinct (map fst (snd (get_company_ratios w ticker)))
            \<and> (distinct (map fst (List.map_filter entry_pair
                                    (find_all ratios_container ''li'' (has_class ''flex'')))) \<longrightarrow>
                snd (get_company_ratios w ticker) =
                  List.map_filter entry_pair
                    (find_all ratios_container ''li'' (has_class ''flex'')))"
  proof (intro allI impI conjI)
    fix ratios_container
    assume c: "find_tag soup ''ul'' (has_id ''top-ratios'') = Some ratios_container"
    let ?ps = "List.map_filter entry_pair (find_all ratios_container ''li'' (has_class ''flex''))"
    have res: "snd (get_company_ratios w ticker) =
        foldl (\<lambda>d kv. AList.update (fst kv) (snd kv) d) [] ?ps"
      using c by (simp add: page top_ratios_def top_ratios_loop_fold)
    show "map_of (snd (get_company_ratios w ticker)) = map_of (rev ?ps)"
      unfolding res by (simp add: map_of_fold_update)
    show "distinct (map fst (snd (get_company_ratios w ticker)))"
      unfolding res by (rule distinct_fold_update) simp
    assume "distinct (map fst ?ps)"
    then show "snd (get_company_ratios w ticker) = ?ps"
      unfolding res using fold_update_distinct [of "[]" ?ps] by simp
  qed
  have nl: "\<forall>(name, value) \<in> set (snd (get_company_ratios w ticker)). NL \<notin> set value"
  proof (clarify)
    fix name val
    assume "(name, val) \<in> set (snd (get_company_ratios w ticker))" and "NL \<in> set val"
    then have "(name, val) \<in> set (top_ratios soup)" using page by simp
    then obtain li where "entry_pair li = Some (name, val)"
      using top_ratios_entries by blast
    then have "val = ratio_value (the (find_tag li ''span'' (has_class ''value'')))"
      by (auto simp: entry_pair_def split: option.splits)
    with \<open>NL \<in> set val\<close> show False using ratio_value_no_newline by simp
  qed
  from ex1 ex2 gen [unfolded entry_pair_explicit] nl show ?thesis
    unfolding Let_def by (intro conjI)
qed

theorem get_company_ratios_normalized_witness:
  "requests_get base_world (profile_url ''X'') profile_headers 10 =
     Inr \<lparr> status_code = 200, reason = ''OK'', url = profile_url ''X'', text_body = ratio_html,
           content = ''%PDF'' \<rparr>
   \<and> BeautifulSoup base_world ratio_html = Inr ratio_page
   \<and> snd (get_company_ratios base_world ''X'') = [(''P/E'', ''23.5''), (''ROE'', ''18 %'')]
   \<and> requests_get (page_world ratios_html) (profile_url ''X'') profile_headers 10 =
     Inr \<lparr> status_code = 200, reason = ''OK'', url = profile_url ''X'', text_body = ratios_html,
           content = ''%PDF'' \<rparr>
   \<and> BeautifulSoup (page_world ratios_html) ratios_html = Inr ratios_page
   \<and> snd (get_company_ratios (page_world ratios_html) ''X'') =
       [(''Market Cap'', ''Rs. 1,234 Cr.''), (''Book Value'', ''12''),
        (''High / Low'', ''1,500 / 1,100''), (''StockP/E'', ''1  2''), (''Yield'', ''1 %'')]"
proof -
  let ?r1 = "\<lparr> status_code = 200, reason = ''OK'', url = profile_url ''X'',
      text_body = ratio_html, content = ''%PDF'' \<rparr>"
  let ?r2 = "\<lparr> status_code = 200, reason = ''OK'', url = profile_url ''X'',
      text_body = ratios_html, content = ''%PDF'' \<rparr>"
  have a1: "requests_get base_world (profile_url ''X'') profile_headers 10 = Inr ?r1"
    by (simp add: base_world_def profile_url_def)
  have a2: "status_code ?r1 = 200" by simp
  have p1: "BeautifulSoup base_world ratio_html = Inr ratio_page"
    by (simp add: base_world_def example_parser_pages)
  then have a3: "BeautifulSoup base_world (text_body ?r1) = Inr ratio_page" by simp
  have b1: "requests_get (page_world ratios_html) (profile_url ''X'') profile_headers 10 = Inr ?r2"
    by (simp add: page_world_def)
  have b2: "status_code ?r2 = 200" by simp
  have p2: "BeautifulSoup (page_world ratios_html) ratios_html = Inr ratios_page"
    by (simp add: page_world_def base_world_def example_parser_pages)
  then have b3: "BeautifulSoup (page_world ratios_html) (text_body ?r2) = Inr ratios_page"
    by simp
  have r1: "snd (get_company_ratios base_world ''X'') = [(''P/E'', ''23.5''), (''ROE'', ''18 %'')]"
    by (rule get_company_ratios_normalized [OF a1 a2 a3, THEN conjunct1, THEN mp]) (rule refl)
  have r2: "snd (get_company_ratios (page_world ratios_html) ''X'') =
       [(''Market Cap'', ''Rs. 1,234 Cr.''), (''Book Value'', ''12''),
        (''High / Low'', ''1,500 / 1,100''), (''StockP/E'', ''1  2''), (''Yield'', ''1 %'')]"
    by (rule get_company_ratios_normalized
          [OF b1 b2 b3, THEN conjunct2, THEN conjunct1, THEN mp]) (rule refl)
  from a1 p1 r1 b1 p2 r2 show ?thesis by (intro conjI)
qed

section \<open>The remote ratio fetcher\<close>

lemma str_exn_iterate_items [simp]:
  "str_exn (w\<lparr>iterate_items := f\<rparr>) e = str_exn w e"
  by (cases e) simp_all

lemma extract_transcript_links_iterate_items [simp]:
  "extract_transcript_links (w\<lparr>iterate_items := f\<rparr>) html = extract_transcript_links w html"
  by (simp add: extract_transcript_links_def)





section \<open>The handler stops without ratios\<close>

lemma headers_differ: "page_headers \<noteq> pdf_headers" "profile_headers \<noteq> pdf_headers"
  by (simp_all add: page_headers_def pdf_headers_def profile_headers_def)

lemma get_company_ratios_events:
  "fst (get_company_ratios w ticker) = [HttpGet (profile_url ticker) profile_headers 10]"
  by (simp add: get_company_ratios_def)

lemma get_financial_data_try_events:
  "ev \<in> set (fst (get_financial_data_try w ticker)) \<Longrightarrow>
     \<not> is_transcript_read ev \<and> \<not> is_generation ev"
  using headers_differ
  by (auto simp: get_financial_data_try_def split: sum.splits)

lemma get_financial_data_events:
  "ev \<in> set (fst (get_financial_data w ticker)) \<Longrightarrow>
     \<not> is_transcript_read ev \<and> \<not> is_generation ev"
  using get_financial_data_try_events [of ev w ticker]
  by (cases "get_financial_data_try w ticker")
     (auto simp: get_financial_data_def split: sum.splits)

lemma start_deep_research_halts:
  assumes "ticker \<noteq> []" and "\<not> truthy (fst (snd (get_financial_data w ticker)))"
  shows "start_deep_research w ticker =
     [StStatus ''Stock analysis in Progress using the management conference call and other many financal data'',
      StatusWrite ''Scraping Fundamental financial data'']
     @ fst (get_company_ratios w ticker)
     @ [StatusWrite ''Gathering Financial Ratios from trusted source which is screener.in & Concall trascript Links...'']
     @ fst (get_financial_data w ticker)
     @ [StError ''Failed to fetch financial data.'', StStop]"
proof -
  obtain evs1 main_ratios where c: "get_company_ratios w ticker = (evs1, main_ratios)"
    by (cases "get_company_ratios w ticker")
  obtain evs2 ratios links where f: "get_financial_data w ticker = (evs2, (ratios, links))"
    by (cases "get_financial_data w ticker") auto
  from assms(2) f have "\<not> truthy ratios" by simp
  with assms(1) c f show ?thesis
    by (simp add: start_deep_research_def)
qed

lemma start_deep_research_halts_events:
  assumes "ticker \<noteq> []" and "\<not> truthy (fst (snd (get_financial_data w ticker)))"
    and "ev \<in> set (start_deep_research w ticker)"
  shows "\<not> is_transcript_read ev \<and> \<not> is_generation ev"
proof -
  from assms(3) have "ev \<in> set (fst (get_financial_data w ticker))
      \<or> ev \<in> set (fst (get_company_ratios w ticker))
      \<or> \<not> is_transcript_read ev \<and> \<not> is_generation ev"
    unfolding start_deep_research_halts [OF assms(1,2)] by auto
  then show ?thesis
    using get_financial_data_events [of ev w ticker] headers_differ
    by (auto simp: get_company_ratios_events)
qed

lemma read_transcript_events:
  "fst (read_transcript w link) \<noteq> []
   \<and> (\<forall>ev \<in> set (fst (read_transcript w link)). is_transcript_read ev)"
  by (auto simp: read_transcript_def read_transcript_try_def split: sum.splits)

text \<open>
  C1: when the remote fetch yields no ratios (an empty dictionary or \<open>None\<close>), the handler
  stops before the transcripts and the synthesis: its run holds no step of
  \<open>read_transcript\<close> (no download of a transcript document, no document opened) and no
  call of the text generation service, and it ends with the error message and
  \<open>st.stop()\<close>.
\<close>

theorem no_ratios_halts_pipeline:
  assumes "ticker \<noteq> []"
    and "fst (snd (get_financial_data w ticker)) = JObj []
         \<or> fst (snd (get_financial_data w ticker)) = JNull"
  shows "(\<forall>ev \<in> set (start_deep_research w ticker).
            \<not> is_transcript_read ev \<and> \<not> is_generation ev)
       \<and> (\<exists>evs. start_deep_research w ticker =
                   evs @ [StError ''Failed to fetch financial data.'', StStop])"
proof -
  have falsy: "\<not> truthy (fst (snd (get_financial_data w ticker)))"
    using assms(2) by auto
  have "\<forall>ev \<in> set (start_deep_research w ticker).
            \<not> is_transcript_read ev \<and> \<not> is_generation ev"
    using start_deep_research_halts_events [OF assms(1) falsy] by blast
  moreover have "\<exists>evs. start_deep_research w ticker =
                   evs @ [StError ''Failed to fetch financial data.'', StStop]"
    unfolding start_deep_research_halts [OF assms(1) falsy]
    by (metis append.assoc)
  ultimately show ?thesis by simp
qed

lemma empty_dataset_run:
  "start_deep_research empty_dataset_world ''X'' =
     [StStatus ''Stock analysis in Progress using the management conference call and other many financal data'',
      StatusWrite ''Scraping Fundamental financial data'',
      HttpGet ''https://www.screener.in/company/X/'' profile_headers 10,
      StatusWrite ''Gathering Financial Ratios from trusted source which is screener.in & Concall trascript Links...'',
      ActorCall [(''mode'', ''getstockdetails''),
                 (''url'', ''https://www.screener.in/company/X/consolidated/'')],
      DatasetIterate ''dataset-1'',
      HttpGet ''https://www.screener.in/company/X/consolidated/'' page_headers 10,
      StError ''Failed to fetch financial data.'', StStop]"
  by code_simp

lemma empty_dataset_ratios:
  "fst (snd (get_financial_data empty_dataset_world ''X'')) = JObj []"
  by code_simp

lemma page_down_ratios: "fst (snd (get_financial_data page_down_world ''X'')) = JNull"
  by (simp add: page_down_world_def base_world_def get_financial_data_def
      get_financial_data_try_def)

theorem no_ratios_halts_pipeline_witness:
  "''X'' \<noteq> []
   \<and> fst (snd (get_financial_data empty_dataset_world ''X'')) = JObj []
   \<and> filter is_transcript_read (start_deep_research empty_dataset_world ''X'') = []
   \<and> filter is_generation (start_deep_research empty_dataset_world ''X'') = []
   \<and> last (start_deep_research empty_dataset_world ''X'') = StStop
   \<and> fst (snd (get_financial_data page_down_world ''X'')) = JNull
   \<and> filter is_transcript_read (start_deep_research page_down_world ''X'') = []
   \<and> filter is_generation (start_deep_research page_down_world ''X'') = []"
proof -
  have h1: "''X'' \<noteq> []" by simp
  have h2: "fst (snd (get_financial_data empty_dataset_world ''X'')) = JObj []
         \<or> fst (snd (get_financial_data empty_dataset_world ''X'')) = JNull"
    using empty_dataset_ratios by simp
  have h3: "fst (snd (get_financial_data page_down_world ''X'')) = JObj []
         \<or> fst (snd (get_financial_data page_down_world ''X'')) = JNull"
    using page_down_ratios by simp
  have "\<forall>ev \<in> set (start_deep_research empty_dataset_world ''X'').
         \<not> is_transcript_read ev \<and> \<not> is_generation ev"
    using no_ratios_halts_pipeline [OF h1 h2] by (rule conjunct1)
  then have a: "filter is_transcript_read (start_deep_research empty_dataset_world ''X'') = []
      \<and> filter is_generation (start_deep_research empty_dataset_world ''X'') = []"
    by (simp add: filter_empty_conv)
  have "\<forall>ev \<in> set (start_deep_research page_down_world ''X'').
         \<not> is_transcript_read ev \<and> \<not> is_generation ev"
    using no_ratios_halts_pipeline [OF h1 h3] by (rule conjunct1)
  then have b: "filter is_transcript_read (start_deep_research page_down_world ''X'') = []
      \<and> filter is_generation (start_deep_research page_down_world ''X'') = []"
    by (simp add: filter_empty_conv)
  have c: "last (start_deep_research empty_dataset_world ''X'') = StStop"
    by (simp add: empty_dataset_run)
  show ?thesis using a b c empty_dataset_ratios page_down_ratios by simp
qed


lemma get_financial_data_raises:
  assumes "snd (get_financial_data_try w ticker) = Inl e"
  shows "snd (get_financial_data w ticker) = (JNull, None)"
  using assms
  by (cases "get_financial_data_try w ticker") (simp add: get_financial_data_def)

text \<open>
  C10: if any exception is raised inside the \<open>try\<close> block of \<open>get_financial_data\<close>, the
  function returns \<open>(None, None)\<close> and the handler ends the request with its
  mandatory-data failure, without reading a transcript or calling the generation service.
  This includes the case where the actor call and the dataset gave non-empty ratios and
  the fetch of the page with the transcript links raised: the ratios are discarded.
\<close>

theorem fetch_exception_discards_ratios:
  assumes "ticker \<noteq> []"
  shows "(snd (get_financial_data_try w ticker) = Inl e \<longrightarrow>
            snd (get_financial_data w ticker) = (JNull, None)
          \<and> (\<forall>ev \<in> set (start_deep_research w ticker).
                \<not> is_transcript_read ev \<and> \<not> is_generation ev)
          \<and> (\<exists>evs. start_deep_research w ticker =
                evs @ [StError (''Data Acquisition Error: '' @ str_exn w e),
                       StError ''Failed to fetch financial data.'', StStop]))
       \<and> (actor_call w (run_input ticker) = Inr dataset_id
          \<and> ratios_loop (iterate_items w dataset_id) = Inr ratios
          \<and> truthy ratios
          \<and> requests_get w (company_url ticker) page_headers 10 = Inl e \<longrightarrow>
            snd (get_financial_data_try w ticker) = Inl e)"
proof (intro conjI impI)
  assume a: "snd (get_financial_data_try w ticker) = Inl e"
  show none: "snd (get_financial_data w ticker) = (JNull, None)"
    using a by (rule get_financial_data_raises)
  then have falsy: "\<not> truthy (fst (snd (get_financial_data w ticker)))" by simp
  show "\<forall>ev \<in> set (start_deep_research w ticker).
          \<not> is_transcript_read ev \<and> \<not> is_generation ev"
    using start_deep_research_halts_events [OF assms falsy] by blast
  obtain evs0 where t: "get_financial_data_try w ticker = (evs0, Inl e)"
    using a by (cases "get_financial_data_try w ticker") simp
  then have "fst (get_financial_data w ticker) =
      evs0 @ [StError (''Data Acquisition Error: '' @ str_exn w e)]"
    by (simp add: get_financial_data_def)
  then show "\<exists>evs. start_deep_research w ticker =
      evs @ [StError (''Data Acquisition Error: '' @ str_exn w e),
             StError ''Failed to fetch financial data.'', StStop]"
    unfolding start_deep_research_halts [OF assms falsy]
    by (metis append.assoc append_Cons append_Nil)
next
  assume "actor_call w (run_input ticker) = Inr dataset_id
          \<and> ratios_loop (iterate_items w dataset_id) = Inr ratios
          \<and> truthy ratios
          \<and> requests_get w (company_url ticker) page_headers 10 = Inl e"
  then show "snd (get_financial_data_try w ticker) = Inl e"
    by (simp add: get_financial_data_try_def)
qed

lemma page_down_try:
  "actor_call page_down_world (run_input ''X'') = Inr ''dataset-1''
   \<and> ratios_loop (iterate_items page_down_world ''dataset-1'') =
       Inr (JObj [(''ROCE'', JStr ''21 %'')])
   \<and> truthy (JObj [(''ROCE'', JStr ''21 %'')])
   \<and> requests_get page_down_world (company_url ''X'') page_headers 10 =
       Inl (Exn ''Connection timed out'')"
  by (simp add: page_down_world_def base_world_def)

theorem fetch_exception_discards_ratios_witness:
  "''X'' \<noteq> []
   \<and> actor_call page_down_world (run_input ''X'') = Inr ''dataset-1''
   \<and> ratios_loop (iterate_items page_down_world ''dataset-1'') =
       Inr (JObj [(''ROCE'', JStr ''21 %'')])
   \<and> truthy (JObj [(''ROCE'', JStr ''21 %'')])
   \<and> requests_get page_down_world (company_url ''X'') page_headers 10 =
       Inl (Exn ''Connection timed out'')
   \<and> snd (get_financial_data_try page_down_world ''X'') = Inl (Exn ''Connection timed out'')
   \<and> snd (get_financial_data page_down_world ''X'') = (JNull, None)
   \<and> filter is_transcript_read (start_deep_research page_down_world ''X'') = []
   \<and> filter is_generation (start_deep_research page_down_world ''X'') = []"
proof -
  have h: "''X'' \<noteq> []" by simp
  show ?thesis
    using page_down_try
      fetch_exception_discards_ratios [OF h, of page_down_world "Exn ''Connection timed out''"
        "''dataset-1''" "JObj [(''ROCE'', JStr ''21 %'')]"]
    by (simp add: filter_empty_conv)
qed

section \<open>The document text extractor\<close>

lemma page_loop_take:
  "\<forall>i \<in> set is. i < n \<Longrightarrow> page_loop (take n pages) is acc = page_loop pages is acc"
  by (induction "is" arbitrary: acc) (auto split: sum.splits)

lemma extract_pages_first_ten: "extract_pages (take 10 pages) = extract_pages pages"
proof -
  have "page_loop (take 10 pages) [0..<min 10 (length pages)] [] =
        page_loop pages [0..<min 10 (length pages)] []"
    by (rule page_loop_take) simp
  moreover have "min 10 (length (take 10 pages)) = min 10 (length pages)" by simp
  ultimately show ?thesis unfolding extract_pages_def Let_def by (simp only:)
qed

lemma page_loop_labels:
  "\<forall>i \<in> set is. \<exists>t. pages ! i = Inr t \<Longrightarrow>
     page_loop pages is acc =
       Inr (acc @ concat (map (\<lambda>i. case pages ! i of
                                      Inr t \<Rightarrow> if t \<noteq> [] then page_marker i @ t else []
                                    | Inl e \<Rightarrow> []) is))"
  by (induction "is" arbitrary: acc) (auto split: sum.splits)

lemma extract_pages_no_text:
  assumes "\<forall>i < min 10 (length pages). pages ! i = Inr []"
  shows "extract_pages pages = Inr ''[Scanned PDF/No Text]''"
proof -
  have "page_loop pages [0..<min 10 (length pages)] [] =
        Inr ([] @ concat (map (\<lambda>i. case pages ! i of
                                      Inr t \<Rightarrow> if t \<noteq> [] then page_marker i @ t else []
                                    | Inl e \<Rightarrow> []) [0..<min 10 (length pages)]))"
    using assms by (intro page_loop_labels) simp
  also have "concat (map (\<lambda>i. case pages ! i of
                                      Inr t \<Rightarrow> if t \<noteq> [] then page_marker i @ t else []
                                    | Inl e \<Rightarrow> []) [0..<min 10 (length pages)]) = []"
    using assms by simp
  finally show ?thesis by (simp add: extract_pages_def strip_def)
qed

lemma page_loop_dash:
  "page_loop pages is acc = Inr res \<Longrightarrow> res = acc \<or> CHR ''-'' \<in> set res"
proof (induction "is" arbitrary: acc)
  case Nil
  then show ?case by simp
next
  case (Cons i "is")
  then show ?case
  proof (cases "pages ! i")
    case (Inl e)
    with Cons.prems show ?thesis by simp
  next
    case (Inr page_text)
    let ?t = "if page_text \<noteq> [] then acc @ page_marker i @ page_text else acc"
    from Cons.prems Inr have "page_loop pages is ?t = Inr res" by simp
    from Cons.IH [OF this] show ?thesis
      by (auto simp: page_marker_def split: if_splits)
  qed
qed

lemma strip_blank: "strip s = [] \<longleftrightarrow> (\<forall>c \<in> set s. is_space c)"
proof
  assume "strip s = []"
  then have all: "\<forall>c \<in> set (dropWhile is_space s). is_space c"
    by (simp add: strip_def)
  have "dropWhile is_space s = []"
  proof (rule ccontr)
    assume ne: "dropWhile is_space s \<noteq> []"
    then have "\<not> is_space (hd (dropWhile is_space s))" by (rule hd_dropWhile)
    moreover have "hd (dropWhile is_space s) \<in> set (dropWhile is_space s)"
      using ne by simp
    ultimately show False using all by blast
  qed
  then show "\<forall>c \<in> set s. is_space c" by simp
next
  assume "\<forall>c \<in> set s. is_space c"
  then show "strip s = []" by (auto simp: strip_def dest: set_dropWhileD)
qed

lemma blank_test_is_empty_test:
  assumes "page_loop pages is [] = Inr res"
  shows "strip res = [] \<longleftrightarrow> res = []"
proof
  assume "strip res = []"
  then have "\<forall>c \<in> set res. is_space c" by (simp add: strip_blank)
  moreover have "\<not> is_space CHR ''-''" by (simp add: is_space_def)
  ultimately have "CHR ''-'' \<notin> set res" by blast
  with page_loop_dash [OF assms] show "res = []" by auto
next
  assume "res = []"
  then show "strip res = []" by (simp add: strip_def)
qed

text \<open>
  C4: the extractor reads at most the first ten pages and labels the text of each page
  with its 1-based number (\<open>extract_pages_first_ten\<close>, \<open>page_loop_labels\<close>), and it returns
  the sentinel when no page gives any text. It does not return the sentinel when the text
  extracted is whitespace only: the test \<open>text.strip()\<close> is made on the text with its page
  markers, so it only finds the empty text (\<open>blank_test_is_empty_test\<close>). For the document
  whose only page has the text \<open>" "\<close>, \<open>read_transcript\<close> returns the page marker followed
  by the space.
\<close>

theorem blank_page_not_sentinel:
  "PdfReader blank_pdf_world ''%PDF'' = Inr [Inr '' '']
   \<and> strip '' '' = []
   \<and> snd (read_transcript blank_pdf_world ''https://x.y/t.pdf'') =
       [NL] @ ''--- PAGE 1 ---'' @ [NL] @ '' ''
   \<and> snd (read_transcript blank_pdf_world ''https://x.y/t.pdf'') \<noteq> ''[Scanned PDF/No Text]''"
proof -
  have "snd (read_transcript blank_pdf_world ''https://x.y/t.pdf'') =
       [NL] @ ''--- PAGE 1 ---'' @ [NL] @ '' ''"
    by code_simp
  moreover have "strip '' '' = []"
    by (simp add: strip_def is_space_def)
  ultimately show ?thesis
    by (simp add: blank_pdf_world_def)
qed

section \<open>Failures of the document text extractor\<close>

lemma transcripts_loop_text:
  "snd (transcripts_loop w n ils acc) =
     acc @ concat (map (\<lambda>p. transcript_header (fst p) @ snd (read_transcript w (snd p))) ils)"
proof (induction w n ils acc rule: transcripts_loop.induct)
  case (1 w n acc)
  then show ?case by simp
next
  case (2 w n i link rest acc)
  have "snd (transcripts_loop w n rest
               (acc @ transcript_header i @ snd (read_transcript w link))) =
        (acc @ transcript_header i @ snd (read_transcript w link))
        @ concat (map (\<lambda>p. transcript_header (fst p) @ snd (read_transcript w (snd p))) rest)"
    by (rule 2 [of "fst (read_transcript w link)"]) simp
  then show ?case by (simp add: case_prod_beta)
qed

lemma parse_transcripts_text:
  "snd (parse_transcripts w (Some links)) =
     concat (map (\<lambda>p. transcript_header (fst p) @ snd (read_transcript w (snd p)))
               (List.enumerate 0 (take 3 links)))"
  by (simp add: parse_transcripts_def transcripts_loop_text Let_def)

lemma read_transcript_caught:
  "read_transcript_try w link = (evs, Inl e) \<Longrightarrow>
     read_transcript w link = (evs, ''Could not read PDF: '' @ str_exn w e)"
  by (simp add: read_transcript_def)

lemma read_transcript_client_error:
  assumes "requests_get w link pdf_headers 15 = Inr response"
    and "400 \<le> status_code response" and "status_code response < 500"
  shows "snd (read_transcript w link) =
           ''Could not read PDF: '' @ str_int (status_code response) @ '' Client Error: ''
           @ reason response @ '' for url: '' @ url response"
  using assms
  by (simp add: read_transcript_def read_transcript_try_def raise_for_status_def)

lemma read_transcript_server_error:
  assumes "requests_get w link pdf_headers 15 = Inr response"
    and "500 \<le> status_code response" and "status_code response < 600"
  shows "snd (read_transcript w link) =
           ''Could not read PDF: '' @ str_int (status_code response) @ '' Server Error: ''
           @ reason response @ '' for url: '' @ url response"
  using assms
  by (simp add: read_transcript_def read_transcript_try_def raise_for_status_def)

lemma read_transcript_reader_raises:
  assumes "requests_get w link pdf_headers 15 = Inr response"
    and "raise_for_status response = Inr u"
    and "PdfReader w (content response) = Inl e"
  shows "snd (read_transcript w link) = ''Could not read PDF: '' @ str_exn w e"
  using assms by (simp add: read_transcript_def read_transcript_try_def)

lemma read_transcript_page_raises:
  assumes "requests_get w link pdf_headers 15 = Inr response"
    and "raise_for_status response = Inr u"
    and "PdfReader w (content response) = Inr pages"
    and "extract_pages pages = Inl e"
  shows "snd (read_transcript w link) = ''Could not read PDF: '' @ str_exn w e"
  using assms by (simp add: read_transcript_def read_transcript_try_def)

lemma first_transcript_header: "transcript_header 0 = [NL] @ ''--- TRANSCRIPT 1 SOURCE ---'' @ [NL]"
  by (simp add: transcript_header_def str_nat.simps digit_char_def)

lemma parse_one_transcript:
  "snd (parse_transcripts w (Some [link])) =
     [NL] @ ''--- TRANSCRIPT 1 SOURCE ---'' @ [NL] @ snd (read_transcript w link)"
  unfolding parse_transcripts_text by (simp add: enumerate_eq_zip first_transcript_header)

text \<open>
  C5: \<open>read_transcript\<close> never propagates an exception. Whatever is raised inside its
  \<open>try\<close> block (by the download, by \<open>raise_for_status\<close> for a status from 400 to 599,
  by the PDF reader, by the extraction of a page) is turned into the text
  \<open>Could not read PDF: ...\<close>, and the handler puts this text after the transcript's
  header like any other transcript text.
\<close>

theorem read_transcript_never_raises:
  "(\<forall>evs e. read_transcript_try w link = (evs, Inl e) \<longrightarrow>
       read_transcript w link = (evs, ''Could not read PDF: '' @ str_exn w e))
   \<and> (\<forall>e. requests_get w link pdf_headers 15 = Inl e \<longrightarrow>
         snd (read_transcript w link) = ''Could not read PDF: '' @ str_exn w e)
   \<and> (\<forall>response. requests_get w link pdf_headers 15 = Inr response
         \<and> 400 \<le> status_code response \<and> status_code response < 500 \<longrightarrow>
         snd (read_transcript w link) =
           ''Could not read PDF: '' @ str_int (status_code response) @ '' Client Error: ''
           @ reason response @ '' for url: '' @ url response)
   \<and> (\<forall>response. requests_get w link pdf_headers 15 = Inr response
         \<and> 500 \<le> status_code response \<and> status_code response < 600 \<longrightarrow>
         snd (read_transcript w link) =
           ''Could not read PDF: '' @ str_int (status_code response) @ '' Server Error: ''
           @ reason response @ '' for url: '' @ url response)
   \<and> (\<forall>response e. requests_get w link pdf_headers 15 = Inr response
         \<and> raise_for_status response = Inr ()
         \<and> PdfReader w (content response) = Inl e \<longrightarrow>
         snd (read_transcript w link) = ''Could not read PDF: '' @ str_exn w e)
   \<and> (\<forall>response pages e. requests_get w link pdf_headers 15 = Inr response
         \<and> raise_for_status response = Inr ()
         \<and> PdfReader w (content response) = Inr pages
         \<and> extract_pages pages = Inl e \<longrightarrow>
         snd (read_transcript w link) = ''Could not read PDF: '' @ str_exn w e)
   \<and> snd (parse_transcripts w (Some [link])) =
       [NL] @ ''--- TRANSCRIPT 1 SOURCE ---'' @ [NL] @ snd (read_transcript w link)"
proof (intro conjI allI impI)
  show "snd (parse_transcripts w (Some [link])) =
       [NL] @ ''--- TRANSCRIPT 1 SOURCE ---'' @ [NL] @ snd (read_transcript w link)"
    by (rule parse_one_transcript)
next
  fix evs e
  assume "read_transcript_try w link = (evs, Inl e)"
  then show "read_transcript w link = (evs, ''Could not read PDF: '' @ str_exn w e)"
    by (rule read_transcript_caught)
next
  fix e
  assume "requests_get w link pdf_headers 15 = Inl e"
  then show "snd (read_transcript w link) = ''Could not read PDF: '' @ str_exn w e"
    by (simp add: read_transcript_def read_transcript_try_def)
next
  fix response
  assume "requests_get w link pdf_headers 15 = Inr response
         \<and> 400 \<le> status_code response \<and> status_code response < 500"
  then show "snd (read_transcript w link) =
           ''Could not read PDF: '' @ str_int (status_code response) @ '' Client Error: ''
           @ reason response @ '' for url: '' @ url response"
    by (elim conjE) (rule read_transcript_client_error)
next
  fix response
  assume "requests_get w link pdf_headers 15 = Inr response
         \<and> 500 \<le> status_code response \<and> status_code response < 600"
  then show "snd (read_transcript w link) =
           ''Could not read PDF: '' @ str_int (status_code response) @ '' Server Error: ''
           @ reason response @ '' for url: '' @ url response"
    by (elim conjE) (rule read_transcript_server_error)
next
  fix response e
  assume "requests_get w link pdf_headers 15 = Inr response
         \<and> raise_for_status response = Inr ()
         \<and> PdfReader w (content response) = Inl e"
  then show "snd (read_transcript w link) = ''Could not read PDF: '' @ str_exn w e"
    by (elim conjE) (rule read_transcript_reader_raises)
next
  fix response pages e
  assume "requests_get w link pdf_headers 15 = Inr response
         \<and> raise_for_status response = Inr ()
         \<and> PdfReader w (content response) = Inr pages
         \<and> extract_pages pages = Inl e"
  then show "snd (read_transcript w link) = ''Could not read PDF: '' @ str_exn w e"
    by (elim conjE) (rule read_transcript_page_raises)
qed

lemma pdf_down_text:
  "snd (read_transcript pdf_down_world ''https://x.y/t.pdf'') =
     ''Could not read PDF: Connection timed out''"
  by (simp add: read_transcript_def read_transcript_try_def pdf_down_world_def)

lemma not_found_text:
  "snd (read_transcript not_found_world ''https://x.y/t.pdf'') =
     ''Could not read PDF: 404 Client Error: Not Found for url: https://x.y/t.pdf''"
  by code_simp

lemma bad_pdf_text:
  "snd (read_transcript bad_pdf_world ''https://x.y/t.pdf'') =
     ''Could not read PDF: EOF marker not found''"
  by code_simp

lemma bad_page_text:
  "snd (read_transcript bad_page_world ''https://x.y/t.pdf'') =
     ''Could not read PDF: broken page''"
  by code_simp

theorem read_transcript_never_raises_witness:
  "requests_get pdf_down_world ''https://x.y/t.pdf'' pdf_headers 15 =
     Inl (Exn ''Connection timed out'')
   \<and> snd (read_transcript pdf_down_world ''https://x.y/t.pdf'') =
       ''Could not read PDF: Connection timed out''
   \<and> snd (parse_transcripts pdf_down_world (Some [''https://x.y/t.pdf''])) =
       [NL] @ ''--- TRANSCRIPT 1 SOURCE ---'' @ [NL]
       @ ''Could not read PDF: Connection timed out''
   \<and> requests_get not_found_world ''https://x.y/t.pdf'' pdf_headers 15 =
       Inr \<lparr> status_code = 404, reason = ''Not Found'', url = ''https://x.y/t.pdf'',
             text_body = [], content = [] \<rparr>
   \<and> snd (read_transcript not_found_world ''https://x.y/t.pdf'') =
       ''Could not read PDF: 404 Client Error: Not Found for url: https://x.y/t.pdf''
   \<and> PdfReader bad_pdf_world ''%PDF'' = Inl (Exn ''EOF marker not found'')
   \<and> snd (read_transcript bad_pdf_world ''https://x.y/t.pdf'') =
       ''Could not read PDF: EOF marker not found''
   \<and> extract_pages [Inr ''Good morning'', Inl (Exn ''broken page'')] = Inl (Exn ''broken page'')
   \<and> snd (read_transcript bad_page_world ''https://x.y/t.pdf'') =
       ''Could not read PDF: broken page''"
proof -
  have h: "requests_get pdf_down_world ''https://x.y/t.pdf'' pdf_headers 15 =
     Inl (Exn ''Connection timed out'')"
    by (simp add: pdf_down_world_def)
  have "extract_pages [Inr ''Good morning'', Inl (Exn ''broken page'')] = Inl (Exn ''broken page'')"
    by code_simp
  then show ?thesis
    using h read_transcript_never_raises [of pdf_down_world "''https://x.y/t.pdf''"]
      not_found_text bad_pdf_text bad_page_text
    by (simp add: not_found_world_def bad_pdf_world_def)
qed

section \<open>The retry policy of the report synthesizer\<close>



lemma wait_first_attempts:
  assumes "n \<le> 4"
  shows "wait_random_exponential w n = 10"
proof -
  have "(2::real) ^ (n - 1) \<le> 2 ^ 3"
    using assms by (intro power_increasing) simp_all
  then have "wait_exponential n = 10"
    by (simp add: wait_exponential_def)
  then show ?thesis by (simp add: wait_random_exponential_def)
qed

lemma retry_loop_3:
  "retry_loop w prompt 3 =
     (case generate_content w 3 prompt of
        Inr response \<Rightarrow> ([GenerateContent prompt], Inr response)
      | Inl e \<Rightarrow> ([GenerateContent prompt], Inl (RetryError e)))"
  by (subst retry_loop.simps) (simp split: sum.splits)

lemma retry_loop_2:
  "retry_loop w prompt 2 =
     (case generate_content w 2 prompt of
        Inr response \<Rightarrow> ([GenerateContent prompt], Inr response)
      | Inl e \<Rightarrow>
          (GenerateContent prompt # Sleep 10 # fst (retry_loop w prompt 3),
           snd (retry_loop w prompt 3)))"
  by (subst retry_loop.simps)
     (simp add: wait_first_attempts case_prod_beta split: sum.splits)

lemma retry_loop_1:
  "retry_loop w prompt 1 =
     (case generate_content w 1 prompt of
        Inr response \<Rightarrow> ([GenerateContent prompt], Inr response)
      | Inl e \<Rightarrow>
          (GenerateContent prompt # Sleep 10 # fst (retry_loop w prompt 2),
           snd (retry_loop w prompt 2)))"
proof -
  have "retry_loop w prompt 1 =
     (case generate_content w 1 prompt of
        Inr response \<Rightarrow> ([GenerateContent prompt], Inr response)
      | Inl e \<Rightarrow>
          (GenerateContent prompt # Sleep (wait_random_exponential w 1)
             # fst (retry_loop w prompt (1 + 1)),
           snd (retry_loop w prompt (1 + 1))))"
    by (subst retry_loop.simps) (simp add: case_prod_beta split: sum.splits)
  moreover have "wait_random_exponential w 1 = 10" by (rule wait_first_attempts) simp
  moreover have "(1::nat) + 1 = 2" by simp
  ultimately show ?thesis by (simp only:)
qed

lemma generate_analysis_cases:
  "generate_analysis w prompt =
     (case generate_content w 1 prompt of
        Inr response \<Rightarrow> ([GenerateContent prompt], Inr response)
      | Inl e1 \<Rightarrow>
          (case generate_content w 2 prompt of
             Inr response \<Rightarrow>
               ([GenerateContent prompt, Sleep 10, GenerateContent prompt], Inr response)
           | Inl e2 \<Rightarrow>
               (case generate_content w 3 prompt of
                  Inr response \<Rightarrow>
                    ([GenerateContent prompt, Sleep 10, GenerateContent prompt, Sleep 10,
                      GenerateContent prompt], Inr response)
                | Inl e3 \<Rightarrow>
                    ([GenerateContent prompt, Sleep 10, GenerateContent prompt, Sleep 10,
                      GenerateContent prompt], Inl (RetryError e3)))))"
  unfolding generate_analysis_def retry_loop_1 retry_loop_2 retry_loop_3
  by (simp split: sum.splits)







section \<open>The transcript segment of the prompt\<close>

lemma map_filter_append:
  "List.map_filter f (xs @ ys) = List.map_filter f xs @ List.map_filter f ys"
  by (simp add: List.map_filter_def)

lemma map_filter_nothing:
  "(\<And>x. x \<in> set xs \<Longrightarrow> f x = None) \<Longrightarrow> List.map_filter f xs = []"
  by (induction xs) (simp_all add: List.map_filter_simps)

lemma no_download: "\<not> is_transcript_read ev \<Longrightarrow> transcript_download ev = None"
  by (cases ev) simp_all

lemma read_transcript_download:
  "List.map_filter transcript_download (fst (read_transcript w link)) = [link]
   \<and> filter is_generation (fst (read_transcript w link)) = []"
  by (auto simp: read_transcript_def read_transcript_try_def List.map_filter_simps
      split: sum.splits)

lemma transcripts_loop_downloads:
  "List.map_filter transcript_download (fst (transcripts_loop w n ils acc)) = map snd ils
   \<and> filter is_generation (fst (transcripts_loop w n ils acc)) = []"
proof (induction w n ils acc rule: transcripts_loop.induct)
  case (1 w n acc)
  then show ?case by (simp add: List.map_filter_simps)
next
  case (2 w n i link rest acc)
  have "List.map_filter transcript_download
          (fst (transcripts_loop w n rest
                  (acc @ transcript_header i @ snd (read_transcript w link)))) = map snd rest
      \<and> filter is_generation
          (fst (transcripts_loop w n rest
                  (acc @ transcript_header i @ snd (read_transcript w link)))) = []"
    by (rule 2 [of "fst (read_transcript w link)"]) simp
  then show ?case
    using read_transcript_download [of w link]
    by (simp add: case_prod_beta map_filter_append List.map_filter_simps)
qed

lemma parse_transcripts_downloads:
  "List.map_filter transcript_download (fst (parse_transcripts w links)) =
     take 3 (case links of None \<Rightarrow> [] | Some found \<Rightarrow> found)
   \<and> filter is_generation (fst (parse_transcripts w links)) = []"
  by (simp add: parse_transcripts_def transcripts_loop_downloads Let_def
      List.map_filter_simps split: option.splits)

lemma parse_transcripts_all_text:
  "snd (parse_transcripts w links) =
     concat (map (\<lambda>(i, link). [NL] @ ''--- TRANSCRIPT '' @ str_nat (i + 1) @ '' SOURCE ---''
                                  @ [NL] @ snd (read_transcript w link))
               (List.enumerate 0 (take 3 (case links of None \<Rightarrow> [] | Some found \<Rightarrow> found))))"
proof (cases links)
  case None
  then show ?thesis by (simp add: parse_transcripts_def)
next
  case (Some found)
  then show ?thesis
    by (simp add: parse_transcripts_text transcript_header_def case_prod_unfold)
qed

lemma generate_analysis_generations:
  "List.map_filter transcript_download (fst (generate_analysis w prompt)) = []
   \<and> set (filter is_generation (fst (generate_analysis w prompt))) = {GenerateContent prompt}"
  unfolding generate_analysis_cases
  by (auto simp: List.map_filter_simps split: sum.splits)

lemma get_financial_data_downloads:
  "List.map_filter transcript_download (fst (get_financial_data w ticker)) = []
   \<and> filter is_generation (fst (get_financial_data w ticker)) = []"
proof
  show "List.map_filter transcript_download (fst (get_financial_data w ticker)) = []"
    by (rule map_filter_nothing) (simp add: get_financial_data_events no_download)
  show "filter is_generation (fst (get_financial_data w ticker)) = []"
    unfolding filter_empty_conv using get_financial_data_events [of _ w ticker] by blast
qed

lemma get_company_ratios_downloads:
  "List.map_filter transcript_download (fst (get_company_ratios w ticker)) = []
   \<and> filter is_generation (fst (get_company_ratios w ticker)) = []"
  using headers_differ by (simp add: get_company_ratios_events List.map_filter_simps)

lemma start_deep_research_run:
  assumes "ticker \<noteq> []"
    and "get_company_ratios w ticker = (evs1, main_ratios)"
    and "get_financial_data w ticker = (evs2, (ratios, found_links))"
    and "truthy ratios"
  shows "start_deep_research w ticker =
     [StStatus ''Stock analysis in Progress using the management conference call and other many financal data'',
      StatusWrite ''Scraping Fundamental financial data'']
     @ fst (get_company_ratios w ticker)
     @ [StatusWrite ''Gathering Financial Ratios from trusted source which is screener.in & Concall trascript Links...'']
     @ fst (get_financial_data w ticker)
     @ fst (parse_transcripts w found_links)
     @ [StatusWrite ''Analysing all the data with the standard procedure given by a RA using our AI model.'']
     @ fst (generate_analysis w
              (audit_prompt w ticker main_ratios ratios (snd (parse_transcripts w found_links))))
     @ (case snd (generate_analysis w
              (audit_prompt w ticker main_ratios ratios (snd (parse_transcripts w found_links)))) of
          Inr response_text \<Rightarrow>
            [StatusUpdate ''Audit Complete!'', StDivider, StMarkdown response_text]
        | Inl e \<Rightarrow> [StError ('' Error:  '' @ str_exn w e)])"
  using assms by (simp add: start_deep_research_def case_prod_beta)

lemma start_deep_research_observed:
  assumes "ticker \<noteq> []"
    and "get_company_ratios w ticker = (evs1, main_ratios)"
    and "get_financial_data w ticker = (evs2, (ratios, found_links))"
    and "truthy ratios"
  shows "List.map_filter transcript_download (start_deep_research w ticker) =
           take 3 (case found_links of None \<Rightarrow> [] | Some found \<Rightarrow> found)
       \<and> set (filter is_generation (start_deep_research w ticker)) =
           {GenerateContent
              (audit_prompt w ticker main_ratios ratios (snd (parse_transcripts w found_links)))}"
  unfolding start_deep_research_run [OF assms]
  using get_company_ratios_downloads [of w ticker] get_financial_data_downloads [of w ticker]
    parse_transcripts_downloads [of w found_links]
    generate_analysis_generations [of w
      "audit_prompt w ticker main_ratios ratios (snd (parse_transcripts w found_links))"]
  by (simp add: map_filter_append List.map_filter_simps split: sum.splits)

text \<open>
  C3: in a run of the handler that reaches the synthesis, the documents downloaded are
  the first three transcript links at most, in their order, and every call of the text
  generation service (there is at least one) gets the prompt whose transcript segment is
  the first 165000 characters of the concatenation, in the order of these links, of the
  texts \<open>read_transcript\<close> gives for them, each after its header
  \<open>--- TRANSCRIPT i SOURCE ---\<close>. The segment is never longer than 165000 characters; it
  is the whole text when the text has at most 165000 characters, and otherwise a prefix of
  it of exactly 165000 characters, so nothing is dropped before the cap is reached.
\<close>

theorem transcript_snippets_capped:
  "(\<forall>evs1 main_ratios evs2 ratios found_links.
      ticker \<noteq> [] \<and> get_company_ratios w ticker = (evs1, main_ratios)
      \<and> get_financial_data w ticker = (evs2, (ratios, found_links)) \<and> truthy ratios \<longrightarrow>
      (let recent_links = take 3 (case found_links of None \<Rightarrow> [] | Some found \<Rightarrow> found);
           transcripts =
             concat (map (\<lambda>(i, link). [NL] @ ''--- TRANSCRIPT '' @ str_nat (i + 1)
                                          @ '' SOURCE ---'' @ [NL] @ snd (read_transcript w link))
                       (List.enumerate 0 recent_links));
           prompt =
             [NL] @ ''             '' @ [NL]
             @ ''            Company: '' @ ticker @ [NL]
             @ ''            '' @ [NL]
             @ ''            DATA:'' @ [NL]
             @ ''            - Fundamental Ratios and data: '' @ str_dict w main_ratios @ [NL]
             @ ''            - Ratios: '' @ str_json w ratios @ [NL]
             @ ''            - Transcript Snippets: '' @ take 165000 transcripts @ [NL]
             @ ''            '' @ [NL]
             @ ''             '' @ [NL]
             @ [NL]
             @ ''             Assume the role of an experienced fund manager with over 20 years in the stock market. Analyze the company ''
             @ ticker @ report_outline w
       in List.map_filter transcript_download (start_deep_research w ticker) = recent_links
          \<and> set (filter is_generation (start_deep_research w ticker)) =
              {GenerateContent prompt}))
   \<and> transcript_snippets (snd (parse_transcripts w (Some links))) =
       take 165000
         (concat (map (\<lambda>(i, link). [NL] @ ''--- TRANSCRIPT '' @ str_nat (i + 1) @ '' SOURCE ---''
                                      @ [NL] @ snd (read_transcript w link))
                    (List.enumerate 0 (take 3 links))))
   \<and> length (transcript_snippets all_transcripts_text) \<le> 165000
   \<and> (length all_transcripts_text \<le> 165000 \<longrightarrow>
        transcript_snippets all_transcripts_text = all_transcripts_text)
   \<and> (\<exists>dropped. all_transcripts_text = transcript_snippets all_transcripts_text @ dropped
        \<and> (dropped \<noteq> [] \<longrightarrow> length (transcript_snippets all_transcripts_text) = 165000))"
proof (intro conjI allI impI)
  fix evs1 main_ratios evs2 ratios found_links
  assume a: "ticker \<noteq> [] \<and> get_company_ratios w ticker = (evs1, main_ratios)
      \<and> get_financial_data w ticker = (evs2, (ratios, found_links)) \<and> truthy ratios"
  have run: "List.map_filter transcript_download (start_deep_research w ticker) =
           take 3 (case found_links of None \<Rightarrow> [] | Some found \<Rightarrow> found)
       \<and> set (filter is_generation (start_deep_research w ticker)) =
           {GenerateContent
              (audit_prompt w ticker main_ratios ratios (snd (parse_transcripts w found_links)))}"
    using a by (elim conjE) (rule start_deep_research_observed)
  show "let recent_links = take 3 (case found_links of None \<Rightarrow> [] | Some found \<Rightarrow> found);
           transcripts =
             concat (map (\<lambda>(i, link). [NL] @ ''--- TRANSCRIPT '' @ str_nat (i + 1)
                                          @ '' SOURCE ---'' @ [NL] @ snd (read_transcript w link))
                       (List.enumerate 0 recent_links));
           prompt =
             [NL] @ ''             '' @ [NL]
             @ ''            Company: '' @ ticker @ [NL]
             @ ''            '' @ [NL]
             @ ''            DATA:'' @ [NL]
             @ ''            - Fundamental Ratios and data: '' @ str_dict w main_ratios @ [NL]
             @ ''            - Ratios: '' @ str_json w ratios @ [NL]
             @ ''            - Transcript Snippets: '' @ take 165000 transcripts @ [NL]
             @ ''            '' @ [NL]
             @ ''             '' @ [NL]
             @ [NL]
             @ ''             Assume the role of an experienced fund manager with over 20 years in the stock market. Analyze the company ''
             @ ticker @ report_outline w
       in List.map_filter transcript_download (start_deep_research w ticker) = recent_links
          \<and> set (filter is_generation (start_deep_research w ticker)) =
              {GenerateContent prompt}"
    unfolding Let_def parse_transcripts_all_text [of w found_links, symmetric]
    using run by (simp add: audit_prompt_def transcript_snippets_def)
next
  show "transcript_snippets (snd (parse_transcripts w (Some links))) =
     take 165000
       (concat (map (\<lambda>(i, link). [NL] @ ''--- TRANSCRIPT '' @ str_nat (i + 1) @ '' SOURCE ---''
                                    @ [NL] @ snd (read_transcript w link))
                  (List.enumerate 0 (take 3 links))))"
    by (simp add: transcript_snippets_def parse_transcripts_text transcript_header_def
        case_prod_unfold)
  show "length (transcript_snippets all_transcripts_text) \<le> 165000"
    by (simp add: transcript_snippets_def)
  show "transcript_snippets all_transcripts_text = all_transcripts_text"
    if "length all_transcripts_text \<le> 165000"
    using that by (simp add: transcript_snippets_def)
  show "\<exists>dropped. all_transcripts_text = transcript_snippets all_transcripts_text @ dropped
        \<and> (dropped \<noteq> [] \<longrightarrow> length (transcript_snippets all_transcripts_text) = 165000)"
    by (rule exI [of _ "drop 165000 all_transcripts_text"])
       (auto simp: transcript_snippets_def)
qed

lemma four_links_ratios:
  "get_company_ratios four_links_world ''X'' =
     ([HttpGet ''https://www.screener.in/company/X/'' profile_headers 10],
      [(''P/E'', ''23.5''), (''ROE'', ''18 %'')])"
  by code_simp

lemma four_links_data:
  "get_financial_data four_links_world ''X'' =
     ([ActorCall (run_input ''X''), DatasetIterate ''dataset-1'',
       HttpGet (company_url ''X'') page_headers 10],
      (JObj [(''ROCE'', JStr ''21 %'')],
       Some [''https://cdn.x.y/q4.pdf'', ''https://www.screener.in/t/q3.pdf'',
             ''httpdocs/q1.pdf'', ''https://www.screener.in/t/q0.pdf'']))"
  by code_simp

lemma four_links_text:
  "concat (map (\<lambda>(i, link). [NL] @ ''--- TRANSCRIPT '' @ str_nat (i + 1)
                                    @ '' SOURCE ---'' @ [NL]
                                    @ snd (read_transcript four_links_world link))
                  (List.enumerate 0
                     (take 3 [''https://cdn.x.y/q4.pdf'', ''https://www.screener.in/t/q3.pdf'',
                              ''httpdocs/q1.pdf'', ''https://www.screener.in/t/q0.pdf''])))
   = [NL]
   @ ''--- TRANSCRIPT 1 SOURCE ---'' @ [NL] @ [NL] @ ''--- PAGE 1 ---'' @ [NL]
   @ ''Call of https://cdn.x.y/q4.pdf'' @ [NL]
   @ ''--- TRANSCRIPT 2 SOURCE ---'' @ [NL] @ [NL] @ ''--- PAGE 1 ---'' @ [NL]
   @ ''Call of https://www.screener.in/t/q3.pdf'' @ [NL]
   @ ''--- TRANSCRIPT 3 SOURCE ---'' @ [NL] @ [NL] @ ''--- PAGE 1 ---'' @ [NL]
   @ ''Call of httpdocs/q1.pdf''"
  by code_simp

lemma four_links_strings:
  "str_dict four_links_world [(''P/E'', ''23.5''), (''ROE'', ''18 %'')] =
     ''{'' @ [CHR 0x27] @ ''P/E'' @ [CHR 0x27]
   @ '': '' @ [CHR 0x27] @ ''23.5'' @ [CHR 0x27] @ '', '' @ [CHR 0x27] @ ''ROE'' @ [CHR 0x27]
   @ '': '' @ [CHR 0x27] @ ''18 %'' @ [CHR 0x27] @ ''}''"
  "str_json four_links_world (JObj [(''ROCE'', JStr ''21 %'')]) = ''{...}''"
  "report_outline four_links_world = '' and provide a detailed report.''"
  by code_simp+

lemma four_links_text_short: "take 165000
   ([NL]
   @ ''--- TRANSCRIPT 1 SOURCE ---'' @ [NL] @ [NL] @ ''--- PAGE 1 ---'' @ [NL]
   @ ''Call of https://cdn.x.y/q4.pdf'' @ [NL]
   @ ''--- TRANSCRIPT 2 SOURCE ---'' @ [NL] @ [NL] @ ''--- PAGE 1 ---'' @ [NL]
   @ ''Call of https://www.screener.in/t/q3.pdf'' @ [NL]
   @ ''--- TRANSCRIPT 3 SOURCE ---'' @ [NL] @ [NL] @ ''--- PAGE 1 ---'' @ [NL]
   @ ''Call of httpdocs/q1.pdf'') = [NL]
   @ ''--- TRANSCRIPT 1 SOURCE ---'' @ [NL] @ [NL] @ ''--- PAGE 1 ---'' @ [NL]
   @ ''Call of https://cdn.x.y/q4.pdf'' @ [NL]
   @ ''--- TRANSCRIPT 2 SOURCE ---'' @ [NL] @ [NL] @ ''--- PAGE 1 ---'' @ [NL]
   @ ''Call of https://www.screener.in/t/q3.pdf'' @ [NL]
   @ ''--- TRANSCRIPT 3 SOURCE ---'' @ [NL] @ [NL] @ ''--- PAGE 1 ---'' @ [NL]
   @ ''Call of httpdocs/q1.pdf''"
  by (rule take_all) simp

theorem transcript_snippets_capped_witness:
  "get_company_ratios four_links_world ''X'' =
     ([HttpGet ''https://www.screener.in/company/X/'' profile_headers 10],
      [(''P/E'', ''23.5''), (''ROE'', ''18 %'')])
   \<and> get_financial_data four_links_world ''X'' =
     ([ActorCall (run_input ''X''), DatasetIterate ''dataset-1'',
       HttpGet (company_url ''X'') page_headers 10],
      (JObj [(''ROCE'', JStr ''21 %'')],
       Some [''https://cdn.x.y/q4.pdf'', ''https://www.screener.in/t/q3.pdf'',
             ''httpdocs/q1.pdf'', ''https://www.screener.in/t/q0.pdf'']))
   \<and> truthy (JObj [(''ROCE'', JStr ''21 %'')])
   \<and> List.map_filter transcript_download (start_deep_research four_links_world ''X'') =
       [''https://cdn.x.y/q4.pdf'', ''https://www.screener.in/t/q3.pdf'', ''httpdocs/q1.pdf'']
   \<and> set (filter is_generation (start_deep_research four_links_world ''X'')) =
       {GenerateContent
          ([NL] @ ''             '' @ [NL]
           @ ''            Company: '' @ ''X'' @ [NL]
           @ ''            '' @ [NL]
           @ ''            DATA:'' @ [NL]
           @ ''            - Fundamental Ratios and data: ''
           @ (''{'' @ [CHR 0x27] @ ''P/E'' @ [CHR 0x27]
              @ '': '' @ [CHR 0x27] @ ''23.5'' @ [CHR 0x27] @ '', '' @ [CHR 0x27] @ ''ROE''
              @ [CHR 0x27] @ '': '' @ [CHR 0x27] @ ''18 %'' @ [CHR 0x27] @ ''}'') @ [NL]
           @ ''            - Ratios: '' @ ''{...}'' @ [NL]
           @ ''            - Transcript Snippets: ''
           @ ([NL]
              @ ''--- TRANSCRIPT 1 SOURCE ---'' @ [NL] @ [NL] @ ''--- PAGE 1 ---'' @ [NL]
              @ ''Call of https://cdn.x.y/q4.pdf'' @ [NL]
              @ ''--- TRANSCRIPT 2 SOURCE ---'' @ [NL] @ [NL] @ ''--- PAGE 1 ---'' @ [NL]
              @ ''Call of https://www.screener.in/t/q3.pdf'' @ [NL]
              @ ''--- TRANSCRIPT 3 SOURCE ---'' @ [NL] @ [NL] @ ''--- PAGE 1 ---'' @ [NL]
              @ ''Call of httpdocs/q1.pdf'') @ [NL]
           @ ''            '' @ [NL]
           @ ''             '' @ [NL]
           @ [NL]
           @ ''             Assume the role of an experienced fund manager with over 20 years in the stock market. Analyze the company ''
           @ ''X'' @ '' and provide a detailed report.'')}
   \<and> length (replicate 165001 CHR ''a'') = 165001
   \<and> transcript_snippets (replicate 165001 CHR ''a'') = replicate 165000 CHR ''a''
   \<and> length (''abc'' :: string) \<le> 165000
   \<and> transcript_snippets ''abc'' = ''abc''"
proof -
  have hyp: "''X'' \<noteq> []
      \<and> get_company_ratios four_links_world ''X'' =
         ([HttpGet ''https://www.screener.in/company/X/'' profile_headers 10],
          [(''P/E'', ''23.5''), (''ROE'', ''18 %'')])
      \<and> get_financial_data four_links_world ''X'' =
         ([ActorCall (run_input ''X''), DatasetIterate ''dataset-1'',
           HttpGet (company_url ''X'') page_headers 10],
          (JObj [(''ROCE'', JStr ''21 %'')],
           Some [''https://cdn.x.y/q4.pdf'', ''https://www.screener.in/t/q3.pdf'',
                 ''httpdocs/q1.pdf'', ''https://www.screener.in/t/q0.pdf'']))
      \<and> truthy (JObj [(''ROCE'', JStr ''21 %'')])"
    using four_links_ratios four_links_data by simp
  have recent: "take 3 [''https://cdn.x.y/q4.pdf'', ''https://www.screener.in/t/q3.pdf'',
                        ''httpdocs/q1.pdf'', ''https://www.screener.in/t/q0.pdf''] =
      [''https://cdn.x.y/q4.pdf'', ''https://www.screener.in/t/q3.pdf'', ''httpdocs/q1.pdf'']"
    by simp
  note run = transcript_snippets_capped [of "''X''" four_links_world,
      THEN conjunct1, THEN spec, THEN spec, THEN spec, THEN spec, THEN spec, THEN mp, OF hyp,
      unfolded Let_def option.case recent four_links_text [unfolded recent]
        four_links_text_short four_links_strings]
  have downloads: "List.map_filter transcript_download
        (start_deep_research four_links_world ''X'') =
      [''https://cdn.x.y/q4.pdf'', ''https://www.screener.in/t/q3.pdf'', ''httpdocs/q1.pdf'']"
    by (rule run [THEN conjunct1])
  have short: "length (''abc'' :: string) \<le> 165000" by simp
  have whole: "transcript_snippets ''abc'' = ''abc''"
    using short
    by (rule transcript_snippets_capped [THEN conjunct2, THEN conjunct2, THEN conjunct2,
          THEN conjunct1, THEN mp])
  have cut: "transcript_snippets (replicate 165001 CHR ''a'') = replicate 165000 CHR ''a''"
    by (simp add: transcript_snippets_def)
  have len: "length (replicate 165001 CHR ''a'') = 165001" by simp
  from hyp downloads run [THEN conjunct2] len cut short whole show ?thesis
    by (intro conjI) (elim conjE, assumption)+
qed

section \<open>The extractors on pages without the expected structure\<close>

lemma map_filter_empty:
  "List.map_filter f xs = [] \<longleftrightarrow> (\<forall>x \<in> set xs. f x = None)"
  by (induction xs) (auto simp: List.map_filter_simps split: option.splits)

lemma update_not_empty: "AList.update k v al \<noteq> []"
  by (cases al) auto

lemma fold_update_empty:
  "foldl (\<lambda>d kv. AList.update (fst kv) (snd kv) d) d ps = [] \<longleftrightarrow> d = [] \<and> ps = []"
  by (induction ps arbitrary: d) (simp_all add: update_not_empty)

lemma links_empty:
  "links_loop lis [] = [] \<longleftrightarrow>
     (\<forall>li \<in> set lis. \<forall>transcript_anchor.
        find_tag li ''a''
          (\<lambda>a. has_class ''concall-link'' a \<and> tag_string a = Some ''Transcript'') =
          Some transcript_anchor \<longrightarrow>
        map_of (attrs transcript_anchor) ''href'' = None)"
  by (auto simp: links_loop_map map_filter_empty anchor_href_explicit split: option.splits)

lemma top_ratios_empty:
  "top_ratios soup = [] \<longleftrightarrow>
     (\<forall>ratios_container.
        find_tag soup ''ul'' (has_id ''top-ratios'') = Some ratios_container \<longrightarrow>
        (\<forall>li \<in> set (find_all ratios_container ''li'' (has_class ''flex'')).
           find_tag li ''span'' (has_class ''name'') = None
           \<or> find_tag li ''span'' (has_class ''value'') = None))"
  by (auto simp: top_ratios_def top_ratios_loop_fold fold_update_empty map_filter_empty
      entry_pair_def split: option.splits)

lemma empty_document_results:
  "links_loop (find_all empty_document ''li'' (has_class ''flex-wrap-420'')) [] = []"
  "top_ratios empty_document = []"
  by code_simp+

lemma unstructured_page_results:
  "links_loop (find_all unstructured_page ''li'' (has_class ''flex-wrap-420'')) [] = []"
  "top_ratios unstructured_page = []"
  by code_simp+

lemma text_document_results:
  "links_loop (find_all (Tag ''[document]'' [] [NavigableString s]) ''li''
                 (has_class ''flex-wrap-420'')) [] = []"
  "top_ratios (Tag ''[document]'' [] [NavigableString s]) = []"
  by (simp_all add: top_ratios_def find_tag_def find_all_def)

text \<open>
  C6, as amended: for input that the parser turns into a tree, the link extractor
  returns a list (it does not raise), and the list is empty exactly when no concall entry
  of the tree (a list item of class \<open>flex-wrap-420\<close>) has, as its first anchor of class
  \<open>concall-link\<close> with the text \<open>Transcript\<close>, an anchor with an href; the ratio extractor
  returns the empty dictionary exactly when the tree has no list with the id
  \<open>top-ratios\<close>, or one in which no entry of class \<open>flex\<close> has both a name and a value
  element. Both results are empty for the empty document, for a document that is text
  without any tag, and for the page \<open>unstructured_page\<close>. The ratio extractor never
  raises: any exception in its \<open>try\<close> block gives the empty dictionary.
\<close>

theorem extractors_empty_without_structure:
  "(\<forall>soup. BeautifulSoup w html_content = Inr soup \<longrightarrow>
       (\<exists>links. extract_transcript_links w html_content = Inr links)
     \<and> (extract_transcript_links w html_content = Inr [] \<longleftrightarrow>
          (\<forall>li \<in> set (find_all soup ''li'' (has_class ''flex-wrap-420'')).
             \<forall>transcript_anchor.
               find_tag li ''a''
                 (\<lambda>a. has_class ''concall-link'' a \<and> tag_string a = Some ''Transcript'') =
                 Some transcript_anchor \<longrightarrow>
               map_of (attrs transcript_anchor) ''href'' = None))
     \<and> (soup = empty_document \<or> soup = unstructured_page
          \<or> (\<exists>s. soup = Tag ''[document]'' [] [NavigableString s]) \<longrightarrow>
          extract_transcript_links w html_content = Inr []))
   \<and> (\<forall>response soup.
         requests_get w (profile_url ticker) profile_headers 10 = Inr response
         \<and> status_code response = 200
         \<and> BeautifulSoup w (text_body response) = Inr soup \<longrightarrow>
         (snd (get_company_ratios w ticker) = [] \<longleftrightarrow>
            (\<forall>ratios_container.
               find_tag soup ''ul'' (has_id ''top-ratios'') = Some ratios_container \<longrightarrow>
               (\<forall>li \<in> set (find_all ratios_container ''li'' (has_class ''flex'')).
                  find_tag li ''span'' (has_class ''name'') = None
                  \<or> find_tag li ''span'' (has_class ''value'') = None)))
       \<and> (soup = empty_document \<or> soup = unstructured_page
            \<or> (\<exists>s. soup = Tag ''[document]'' [] [NavigableString s]) \<longrightarrow>
            snd (get_company_ratios w ticker) = []))
   \<and> (\<forall>e. get_company_ratios_try w ticker = Inl e \<longrightarrow> snd (get_company_ratios w ticker) = [])"
proof (intro conjI allI impI)
  fix soup
  assume p: "BeautifulSoup w html_content = Inr soup"
  note parsed = extract_transcript_links_parsed [OF p]
  show "\<exists>links. extract_transcript_links w html_content = Inr links"
    unfolding parsed by simp
  show "extract_transcript_links w html_content = Inr [] \<longleftrightarrow>
          (\<forall>li \<in> set (find_all soup ''li'' (has_class ''flex-wrap-420'')).
             \<forall>transcript_anchor.
               find_tag li ''a''
                 (\<lambda>a. has_class ''concall-link'' a \<and> tag_string a = Some ''Transcript'') =
                 Some transcript_anchor \<longrightarrow>
               map_of (attrs transcript_anchor) ''href'' = None)"
    unfolding parsed using links_empty [of "find_all soup ''li'' (has_class ''flex-wrap-420'')"]
    by simp
  show "extract_transcript_links w html_content = Inr []"
    if "soup = empty_document \<or> soup = unstructured_page
          \<or> (\<exists>s. soup = Tag ''[document]'' [] [NavigableString s])"
    unfolding parsed
    using that empty_document_results(1) unstructured_page_results(1) text_document_results(1)
    by auto
next
  fix response soup
  assume a: "requests_get w (profile_url ticker) profile_headers 10 = Inr response
         \<and> status_code response = 200
         \<and> BeautifulSoup w (text_body response) = Inr soup"
  have page: "snd (get_company_ratios w ticker) = top_ratios soup"
    using a by (elim conjE) (rule get_company_ratios_page)
  show "snd (get_company_ratios w ticker) = [] \<longleftrightarrow>
            (\<forall>ratios_container.
               find_tag soup ''ul'' (has_id ''top-ratios'') = Some ratios_container \<longrightarrow>
               (\<forall>li \<in> set (find_all ratios_container ''li'' (has_class ''flex'')).
                  find_tag li ''span'' (has_class ''name'') = None
                  \<or> find_tag li ''span'' (has_class ''value'') = None))"
    unfolding page by (rule top_ratios_empty)
  show "snd (get_company_ratios w ticker) = []"
    if "soup = empty_document \<or> soup = unstructured_page
            \<or> (\<exists>s. soup = Tag ''[document]'' [] [NavigableString s])"
    unfolding page
    using that empty_document_results(2) unstructured_page_results(2) text_document_results(2)
    by auto
next
  fix e
  assume "get_company_ratios_try w ticker = Inl e"
  then show "snd (get_company_ratios w ticker) = []"
    by (simp add: get_company_ratios_def)
qed

lemma unstructured_world_page:
  "BeautifulSoup (page_world unstructured_html) unstructured_html = Inr unstructured_page"
  "BeautifulSoup base_world [] = Inr empty_document"
  "BeautifulSoup base_world ''not markup'' = Inr (Tag ''[document]'' [] [NavigableString ''not markup''])"
  by code_simp+

lemma unstructured_world_profile:
  "requests_get (page_world unstructured_html) (profile_url ''X'') profile_headers 10 =
     Inr \<lparr> status_code = 200, reason = ''OK'', url = profile_url ''X'',
           text_body = unstructured_html, content = ''%PDF'' \<rparr>"
  "requests_get (page_world []) (profile_url ''X'') profile_headers 10 =
     Inr \<lparr> status_code = 200, reason = ''OK'', url = profile_url ''X'',
           text_body = [], content = ''%PDF'' \<rparr>"
  "BeautifulSoup (page_world []) [] = Inr empty_document"
  by (simp_all add: page_world_def base_world_def example_parser_def example_pages_def)

lemma page_down_profile:
  "get_company_ratios_try page_down_world ''X'' = Inl (Exn ''Connection timed out'')"
  by (simp add: get_company_ratios_try_def page_down_world_def)

theorem extractors_empty_without_structure_witness:
  "BeautifulSoup base_world [] = Inr empty_document
   \<and> extract_transcript_links base_world [] = Inr []
   \<and> BeautifulSoup base_world ''not markup'' =
       Inr (Tag ''[document]'' [] [NavigableString ''not markup''])
   \<and> extract_transcript_links base_world ''not markup'' = Inr []
   \<and> BeautifulSoup (page_world unstructured_html) unstructured_html = Inr unstructured_page
   \<and> extract_transcript_links (page_world unstructured_html) unstructured_html = Inr []
   \<and> requests_get (page_world unstructured_html) (profile_url ''X'') profile_headers 10 =
       Inr \<lparr> status_code = 200, reason = ''OK'', url = profile_url ''X'',
             text_body = unstructured_html, content = ''%PDF'' \<rparr>
   \<and> snd (get_company_ratios (page_world unstructured_html) ''X'') = []
   \<and> requests_get (page_world []) (profile_url ''X'') profile_headers 10 =
       Inr \<lparr> status_code = 200, reason = ''OK'', url = profile_url ''X'',
             text_body = [], content = ''%PDF'' \<rparr>
   \<and> BeautifulSoup (page_world []) [] = Inr empty_document
   \<and> snd (get_company_ratios (page_world []) ''X'') = []
   \<and> get_company_ratios_try page_down_world ''X'' = Inl (Exn ''Connection timed out'')
   \<and> snd (get_company_ratios page_down_world ''X'') = []"
proof -
  note p1 = unstructured_world_page(2)
  note p2 = unstructured_world_page(3)
  note p3 = unstructured_world_page(1)
  have l1: "extract_transcript_links base_world [] = Inr []"
    by (rule extractors_empty_without_structure [where w = base_world and html_content = "[]",
          THEN conjunct1, THEN spec, THEN mp, OF p1, THEN conjunct2, THEN conjunct2, THEN mp])
       simp
  have l2: "extract_transcript_links base_world ''not markup'' = Inr []"
    by (rule extractors_empty_without_structure [where w = base_world
            and html_content = "''not markup''",
          THEN conjunct1, THEN spec, THEN mp, OF p2, THEN conjunct2, THEN conjunct2, THEN mp])
       simp
  have l3: "extract_transcript_links (page_world unstructured_html) unstructured_html = Inr []"
    by (rule extractors_empty_without_structure [where w = "page_world unstructured_html"
            and html_content = unstructured_html,
          THEN conjunct1, THEN spec, THEN mp, OF p3, THEN conjunct2, THEN conjunct2, THEN mp])
       simp
  have h4: "requests_get (page_world unstructured_html) (profile_url ''X'') profile_headers 10 =
       Inr \<lparr> status_code = 200, reason = ''OK'', url = profile_url ''X'',
             text_body = unstructured_html, content = ''%PDF'' \<rparr>
     \<and> status_code \<lparr> status_code = 200, reason = ''OK'', url = profile_url ''X'',
             text_body = unstructured_html, content = ''%PDF'' \<rparr> = 200
     \<and> BeautifulSoup (page_world unstructured_html)
         (text_body \<lparr> status_code = 200, reason = ''OK'', url = profile_url ''X'',
             text_body = unstructured_html, content = ''%PDF'' \<rparr>) = Inr unstructured_page"
    using unstructured_world_profile(1) p3 by simp
  have r4: "snd (get_company_ratios (page_world unstructured_html) ''X'') = []"
    by (rule extractors_empty_without_structure [where w = "page_world unstructured_html"
            and ticker = "''X''",
          THEN conjunct2, THEN conjunct1, THEN spec, THEN spec, THEN mp, OF h4,
          THEN conjunct2, THEN mp])
       simp
  have h5: "requests_get (page_world []) (profile_url ''X'') profile_headers 10 =
       Inr \<lparr> status_code = 200, reason = ''OK'', url = profile_url ''X'',
             text_body = [], content = ''%PDF'' \<rparr>
     \<and> status_code \<lparr> status_code = 200, reason = ''OK'', url = profile_url ''X'',
             text_body = [], content = ''%PDF'' \<rparr> = 200
     \<and> BeautifulSoup (page_world [])
         (text_body \<lparr> status_code = 200, reason = ''OK'', url = profile_url ''X'',
             text_body = [], content = ''%PDF'' \<rparr>) = Inr empty_document"
    using unstructured_world_profile(2,3) by simp
  have r5: "snd (get_company_ratios (page_world []) ''X'') = []"
    by (rule extractors_empty_without_structure [where w = "page_world []"
            and ticker = "''X''",
          THEN conjunct2, THEN conjunct1, THEN spec, THEN spec, THEN mp, OF h5,
          THEN conjunct2, THEN mp])
       simp
  have r6: "snd (get_company_ratios page_down_world ''X'') = []"
    by (rule extractors_empty_without_structure [where w = page_down_world
            and ticker = "''X''",
          THEN conjunct2, THEN conjunct2, THEN spec, THEN mp])
       (rule page_down_profile)
  from p1 l1 p2 l2 p3 l3 unstructured_world_profile(1) r4 unstructured_world_profile(2,3) r5
    page_down_profile r6
  show ?thesis by (intro conjI)
qed

text \<open>
  C6, as stated, fails: the markup \<open>malformed_html\<close> is malformed (a stray end tag, no end
  tag for its anchor), the lenient parser still builds a concall entry from it, and the
  link extractor returns a link.
\<close>

theorem malformed_markup_gives_links:
  "BeautifulSoup base_world malformed_html = Inr malformed_tree
   \<and> extract_transcript_links base_world malformed_html = Inr [''https://www.screener.in/t.pdf'']
   \<and> extract_transcript_links base_world malformed_html \<noteq> Inr []"
proof -
  have parsed: "BeautifulSoup base_world malformed_html = Inr malformed_tree"
    by code_simp
  have "links_loop (find_all malformed_tree ''li'' (has_class ''flex-wrap-420'')) [] =
      [''https://www.screener.in/t.pdf'']"
    by code_simp
  then show ?thesis
    using parsed by (simp add: extract_transcript_links_def)
qed

end
